theory Spec2Isabelle
  imports Complex_Main "HOL-Library.Char_ord" "HOL-Library.List_Lexorder"
begin

section \<open>JavaScript errors\<close>

text \<open>
  A thrown JavaScript error is a value: the constructor tells \<open>Error\<close> from
  \<open>TypeError\<close> and the other built-in kinds, the string is \<open>error.message\<close>.
  A function that may throw returns \<open>js_error + 'a\<close>, with \<open>Inl\<close> for the throw.
\<close>

datatype js_error = Error string | TypeError string | OtherError string

fun message :: "js_error \<Rightarrow> string" where
  "message (Error m) = m"
| "message (TypeError m) = m"
| "message (OtherError m) = m"

section \<open>ZK proof service (services/zk.js)\<close>

subsection \<open>Circuits and the proof queue\<close>

record circuit =
  circuit_id :: string
  circuit_name :: string
  constraints :: nat
  provingTimeEstimate :: string

definition CIRCUITS :: "circuit list" where
  "CIRCUITS =
    [\<lparr>circuit_id = ''balance'', circuit_name = ''Balance Threshold Proof'',
      constraints = 64, provingTimeEstimate = ''1-3 seconds''\<rparr>,
     \<lparr>circuit_id = ''holder'', circuit_name = ''Token Holder Proof'',
      constraints = 280, provingTimeEstimate = ''2-5 seconds''\<rparr>,
     \<lparr>circuit_id = ''threshold'', circuit_name = ''Generic Threshold Proof'',
      constraints = 64, provingTimeEstimate = ''1-3 seconds''\<rparr>]"

text \<open>\<open>CIRCUITS.find((c) => c.id === circuitId) || null\<close>\<close>

definition getCircuit :: "string \<Rightarrow> circuit option" where
  "getCircuit cid = find (\<lambda>c. circuit_id c = cid) CIRCUITS"

text \<open>
  The payload of a proof job, and the Bull queue as far as \<open>queueProofGeneration\<close>
  touches it: \<open>getWaitingCount()\<close> is the number of waiting jobs and \<open>add(data)\<close>
  puts the job behind them.
\<close>

record 'i proof_job =
  circuitId :: string
  inputs :: 'i
  callbackUrl :: "string option"
  userId :: string

type_synonym 'i proof_queue = "'i proof_job list"

definition getWaitingCount :: "'i proof_queue \<Rightarrow> int" where
  "getWaitingCount q = int (length q)"

definition queue_add :: "'i proof_job \<Rightarrow> 'i proof_queue \<Rightarrow> 'i proof_queue" where
  "queue_add d q = q @ [d]"

text \<open>
  \<open>queueProofGeneration(proofId, data)\<close>. The argument \<open>maxQueueSize\<close> is
  \<open>config.zkProof.maxQueueSize\<close>. The function returns nothing; the model returns the
  queue it leaves behind, and the thrown error if there is one.
\<close>

definition queueProofGeneration ::
  "int \<Rightarrow> string \<Rightarrow> 'i proof_job \<Rightarrow> 'i proof_queue \<Rightarrow> (js_error + unit) \<times> 'i proof_queue" where
  "queueProofGeneration maxQueueSize proofId d q =
     (case getCircuit (circuitId d) of
        None \<Rightarrow> (Inl (Error (''Circuit '' @ circuitId d @ '' not found'')), q)
      | Some c \<Rightarrow>
          (let queueSize = getWaitingCount q in
           if queueSize \<ge> maxQueueSize
           then (Inl (Error ''Proof queue is full. Please try again later.''), q)
           else (Inr (), queue_add d q)))"

subsection \<open>Synchronous balance proof\<close>

text \<open>
  The external prover \<open>snarkjs.groth16.fullProve(inputs, wasmPath, zkeyPath)\<close> is a
  parameter: it either throws or returns a proof and its public signals. Every invocation
  is written to a call log, which the model returns beside the result. The built-in
  \<open>BigInt(v)\<close> is a parameter as well (it throws on a value that is not an integer).
  The two decimal strings \<open>balanceNum.toString()\<close> and \<open>thresholdNum.toString()\<close> handed
  to the prover are represented by the integers they denote.
\<close>

type_synonym path = "string list"

definition CIRCUITS_DIR :: path where
  "CIRCUITS_DIR = [''..'', ''circuits'']"

definition COMPILED_DIR :: path where
  "COMPILED_DIR = CIRCUITS_DIR @ [''compiled'']"

definition KEYS_DIR :: path where
  "KEYS_DIR = CIRCUITS_DIR @ [''keys'']"

record balance_inputs =
  in_balance :: int
  in_threshold :: int

record prover_call =
  call_inputs :: balance_inputs
  call_wasm :: path
  call_zkey :: path

type_synonym ('p, 's) prover = "balance_inputs \<Rightarrow> path \<Rightarrow> path \<Rightarrow> js_error + ('p \<times> 's)"

record ('p, 's) balance_proof =
  proof_obj :: 'p
  publicSignals :: 's
  threshold :: string
  circuit :: string

definition generateBalanceProof ::
  "('v \<Rightarrow> js_error + int) \<Rightarrow> ('v \<Rightarrow> string) \<Rightarrow> ('p, 's) prover \<Rightarrow> 'v \<Rightarrow> 'v
     \<Rightarrow> (js_error + ('p, 's) balance_proof) \<times> prover_call list" where
  "generateBalanceProof BigInt toString fullProve balance thr =
     (case BigInt balance of
        Inl e \<Rightarrow> (Inl e, [])
      | Inr balanceNum \<Rightarrow>
     (case BigInt thr of
        Inl e \<Rightarrow> (Inl e, [])
      | Inr thresholdNum \<Rightarrow>
          if balanceNum < thresholdNum
          then (Inl (Error ''Balance is below threshold - cannot generate valid proof''), [])
          else
            (let ins = \<lparr>in_balance = balanceNum, in_threshold = thresholdNum\<rparr>;
                 wasmPath = COMPILED_DIR @ [''balance_threshold_js'', ''balance_threshold.wasm''];
                 zkeyPath = KEYS_DIR @ [''balance_threshold_final.zkey''];
                 calls = [\<lparr>call_inputs = ins, call_wasm = wasmPath, call_zkey = zkeyPath\<rparr>]
             in case fullProve ins wasmPath zkeyPath of
                  Inl e \<Rightarrow> (Inl e, calls)
                | Inr (p, s) \<Rightarrow>
                    (Inr \<lparr>proof_obj = p, publicSignals = s, threshold = toString thr,
                          circuit = ''balance''\<rparr>, calls))))"

section \<open>Solana RPC provider pool (services/solana.js)\<close>

text \<open>
  \<open>providerHealth\<close> is a module-level object with one entry for each of the three
  providers. The pool's state also holds the reset timers that \<open>setTimeout\<close> has
  scheduled and that have not fired yet.
\<close>

datatype provider = primary | fallback | triton

record health =
  healthy :: bool
  failures :: nat
  lastCheck :: int

record pool =
  providerHealth :: "provider \<Rightarrow> health"
  timers :: "provider list"




text \<open>The body of the \<open>setTimeout\<close> callback, run when a scheduled reset of \<open>p\<close> fires.\<close>

definition timer_reset :: "provider \<Rightarrow> pool \<Rightarrow> pool" where
  "timer_reset p st =
     st\<lparr>providerHealth := (providerHealth st)
            (p := (providerHealth st p)\<lparr>healthy := True, failures := 0\<rparr>),
        timers := remove1 p (timers st)\<rparr>"




section \<open>Webhook delivery (services/webhook.js)\<close>

text \<open>
  The delivery row of \<open>webhook_deliveries\<close> as \<open>WebhookDelivery.updateStatus\<close> writes it:
  the statement sets all five columns, so a field the caller leaves out is stored as NULL.
\<close>

record delivery_update =
  upd_status :: string
  upd_responseCode :: "int option"
  upd_responseBody :: "string option"
  upd_error :: "string option"
  upd_duration :: int

datatype wh_op =
    DeliveryUpdateStatus string delivery_update
  | WebhookUpdateLastTriggered string

record delivery_row =
  row_status :: string
  row_response_code :: "int option"
  row_response_body :: "string option"
  row_error :: "string option"
  row_duration_ms :: "int option"
  row_attempt :: nat

definition updateStatus_row :: "delivery_update \<Rightarrow> delivery_row \<Rightarrow> delivery_row" where
  "updateStatus_row u r =
     r\<lparr>row_status := upd_status u, row_response_code := upd_responseCode u,
       row_response_body := upd_responseBody u, row_error := upd_error u,
       row_duration_ms := Some (upd_duration u)\<rparr>"

text \<open>The effect of a sequence of store operations on the row of delivery \<open>d\<close>.\<close>

fun apply_wh_ops :: "string \<Rightarrow> wh_op list \<Rightarrow> delivery_row \<Rightarrow> delivery_row" where
  "apply_wh_ops d [] r = r"
| "apply_wh_ops d (DeliveryUpdateStatus d' u # ops) r =
     apply_wh_ops d ops (if d' = d then updateStatus_row u r else r)"
| "apply_wh_ops d (WebhookUpdateLastTriggered w # ops) r = apply_wh_ops d ops r"

text \<open>Decimal digits of a natural number, for the status code in the error message.\<close>

fun digits :: "nat \<Rightarrow> string" where
  "digits n = (if n < 10 then [''0123456789'' ! n]
               else digits (n div 10) @ [''0123456789'' ! (n mod 10)])"

definition show_int :: "int \<Rightarrow> string" where
  "show_int i = (if i < 0 then CHR ''-'' # digits (nat (- i)) else digits (nat i))"

text \<open>
  What \<open>axios.post\<close> does for a delivery: no response (network error or timeout, with its
  message), or a response with a status code and a body, the body being
  \<open>JSON.stringify(response.data)\<close>. With \<open>validateStatus: (status) => status < 500\<close> axios
  rejects a response whose status is 500 or more.
\<close>

datatype http_outcome = NoResponse string | Response int string

record webhook =
  webhook_id :: string
  url :: string
  secret :: string

record delivery_result =
  res_success :: bool
  statusCode :: int
  res_duration :: int

text \<open>
  \<open>deliverWebhook(deliveryId, webhook, event, payload, attempt)\<close>. The outcome of the POST
  and the two measured durations (the one taken in the \<open>try\<close> block and the later one
  taken in the \<open>catch\<close> block) come from outside. So does the fate of every store call:
  \<open>db op\<close> is \<open>None\<close> when the call \<open>op\<close> succeeds and the error it rejects with otherwise
  (a rejected call is taken to have written nothing). The store operations that succeeded
  are returned in the order they were issued.

  The two store calls of the \<open>try\<close> block are awaited there, so a rejection takes the
  \<open>catch\<close> block, and so does the \<open>throw\<close> for a status outside 2xx. The update of the
  \<open>catch\<close> block is awaited outside any \<open>try\<close>: when it rejects, its error is the one the
  function throws.
\<close>

definition deliverWebhook ::
  "(wh_op \<Rightarrow> js_error option) \<Rightarrow> string \<Rightarrow> webhook \<Rightarrow> http_outcome \<Rightarrow> int \<Rightarrow> int
     \<Rightarrow> (js_error + delivery_result) \<times> wh_op list" where
  "deliverWebhook db deliveryId wh outcome duration durationCatch =
     (let catch = (\<lambda>e ops.
            let u = DeliveryUpdateStatus deliveryId
                      \<lparr>upd_status = ''failed'', upd_responseCode = None,
                       upd_responseBody = None, upd_error = Some (message e),
                       upd_duration = durationCatch\<rparr>
            in case db u of
                 Some e' \<Rightarrow> (Inl e', ops)
               | None \<Rightarrow> (Inl e, ops @ [u]))
      in case outcome of
           NoResponse m \<Rightarrow> catch (Error m) []
         | Response st body \<Rightarrow>
             if \<not> st < 500
             then catch (Error (''Request failed with status code '' @ show_int st)) []
             else
               (let isSuccess = (st \<ge> 200 \<and> st < 300);
                    u1 = DeliveryUpdateStatus deliveryId
                       \<lparr>upd_status = (if isSuccess then ''success'' else ''failed''),
                        upd_responseCode = Some st,
                        upd_responseBody = Some (take 1000 body),
                        upd_error = None, upd_duration = duration\<rparr>
                in case db u1 of
                     Some e \<Rightarrow> catch e []
                   | None \<Rightarrow>
                       if isSuccess
                       then (case db (WebhookUpdateLastTriggered (webhook_id wh)) of
                               Some e \<Rightarrow> catch e [u1]
                             | None \<Rightarrow>
                                 (Inr \<lparr>res_success = True, statusCode = st,
                                       res_duration = duration\<rparr>,
                                  [u1, WebhookUpdateLastTriggered (webhook_id wh)]))
                       else catch (Error (''Webhook returned '' @ show_int st)) [u1]))"

section \<open>Workflow engine (services/workflow.js)\<close>

subsection \<open>JavaScript values\<close>

text \<open>
  Trigger data, condition values and action configurations are JSON values; \<open>undefined\<close>
  is what a missing property reads as. Numbers are the rationals (a finite double is one;
  the code only compares them). An object is the list of its own properties.
\<close>

datatype jsv =
    JUndefined | JNull | JBool bool | JNum rat | JStr string
  | JArr "jsv list" | JObj "(string \<times> jsv) list"

text \<open>
  The two conversions of the language that depend on number syntax are parameters:
  \<open>StringToNumber\<close> is the numeric value of a string (\<open>None\<close> for \<open>NaN\<close>) and
  \<open>NumberToString\<close> the decimal rendering of a number.
\<close>

record js_runtime =
  StringToNumber :: "string \<Rightarrow> rat option"
  NumberToString :: "rat \<Rightarrow> string"

fun truthy :: "jsv \<Rightarrow> bool" where
  "truthy JUndefined = False"
| "truthy JNull = False"
| "truthy (JBool b) = b"
| "truthy (JNum q) = (q \<noteq> 0)"
| "truthy (JStr s) = (s \<noteq> [])"
| "truthy (JArr xs) = True"
| "truthy (JObj kvs) = True"

text \<open>\<open>a === b\<close>. Two objects or arrays read from different places are never identical.\<close>

fun strict_eq :: "jsv \<Rightarrow> jsv \<Rightarrow> bool" where
  "strict_eq JUndefined JUndefined = True"
| "strict_eq JNull JNull = True"
| "strict_eq (JBool a) (JBool b) = (a = b)"
| "strict_eq (JNum a) (JNum b) = (a = b)"
| "strict_eq (JStr a) (JStr b) = (a = b)"
| "strict_eq a b = False"

fun join_comma :: "string list \<Rightarrow> string" where
  "join_comma [] = []"
| "join_comma [x] = x"
| "join_comma (x # y # ys) = x @ '','' @ join_comma (y # ys)"

text \<open>\<open>String(v)\<close>: an array joins its elements with commas, a plain object has no own rendering.\<close>

fun js_toString :: "js_runtime \<Rightarrow> jsv \<Rightarrow> string" where
  "js_toString rt JUndefined = ''undefined''"
| "js_toString rt JNull = ''null''"
| "js_toString rt (JBool b) = (if b then ''true'' else ''false'')"
| "js_toString rt (JNum q) = NumberToString rt q"
| "js_toString rt (JStr s) = s"
| "js_toString rt (JArr xs) =
     join_comma (map (\<lambda>x. if x = JUndefined \<or> x = JNull then [] else js_toString rt x) xs)"
| "js_toString rt (JObj kvs) = ''[object Object]''"

fun toPrimitive :: "js_runtime \<Rightarrow> jsv \<Rightarrow> jsv" where
  "toPrimitive rt (JArr xs) = JStr (js_toString rt (JArr xs))"
| "toPrimitive rt (JObj kvs) = JStr (js_toString rt (JObj kvs))"
| "toPrimitive rt v = v"

text \<open>\<open>ToNumber\<close> of a primitive; \<open>None\<close> is \<open>NaN\<close>.\<close>

fun toNumber :: "js_runtime \<Rightarrow> jsv \<Rightarrow> rat option" where
  "toNumber rt JUndefined = None"
| "toNumber rt JNull = Some 0"
| "toNumber rt (JBool b) = Some (if b then 1 else 0)"
| "toNumber rt (JNum q) = Some q"
| "toNumber rt (JStr s) = StringToNumber rt s"
| "toNumber rt v = None"

text \<open>
  The relational comparison \<open>x < y\<close> of the language: two strings compare by code units,
  anything else compares as numbers, and a comparison with \<open>NaN\<close> is undefined (\<open>None\<close>).
  \<open>x <= y\<close> is \<open>y < x\<close> being false, \<open>x >= y\<close> is \<open>x < y\<close> being false; an undefined
  comparison makes both false.
\<close>

definition js_less :: "js_runtime \<Rightarrow> jsv \<Rightarrow> jsv \<Rightarrow> bool option" where
  "js_less rt x y =
     (case (toPrimitive rt x, toPrimitive rt y) of
        (JStr a, JStr b) \<Rightarrow> Some (a < b)
      | (px, py) \<Rightarrow>
          (case (toNumber rt px, toNumber rt py) of
             (Some a, Some b) \<Rightarrow> Some (a < b)
           | _ \<Rightarrow> None))"

definition js_le :: "js_runtime \<Rightarrow> jsv \<Rightarrow> jsv \<Rightarrow> bool" where
  "js_le rt x y = (js_less rt y x = Some False)"

definition js_ge :: "js_runtime \<Rightarrow> jsv \<Rightarrow> jsv \<Rightarrow> bool" where
  "js_ge rt x y = (js_less rt x y = Some False)"

fun starts_with :: "string \<Rightarrow> string \<Rightarrow> bool" where
  "starts_with s [] = True"
| "starts_with [] (c # cs) = False"
| "starts_with (x # xs) (c # cs) = (x = c \<and> starts_with xs cs)"

text \<open>\<open>s.includes(t)\<close>\<close>

fun str_includes :: "string \<Rightarrow> string \<Rightarrow> bool" where
  "str_includes [] t = (t = [])"
| "str_includes (x # xs) t = (starts_with (x # xs) t \<or> str_includes xs t)"

text \<open>\<open>s.split('.')\<close>\<close>

fun split_dot :: "string \<Rightarrow> string list" where
  "split_dot [] = [[]]"
| "split_dot (x # xs) =
     (if x = CHR ''.'' then [] # split_dot xs
      else (case split_dot xs of w # ws \<Rightarrow> (x # w) # ws | [] \<Rightarrow> [[x]]))"

text \<open>An array index is a decimal numeral without a leading zero.\<close>

definition digit_of :: "char \<Rightarrow> nat option" where
  "digit_of c = map_of [(CHR ''0'', 0), (CHR ''1'', 1), (CHR ''2'', 2), (CHR ''3'', 3),
     (CHR ''4'', 4), (CHR ''5'', 5), (CHR ''6'', 6), (CHR ''7'', 7), (CHR ''8'', 8),
     (CHR ''9'', 9)] c"

fun dec_val :: "nat \<Rightarrow> string \<Rightarrow> nat option" where
  "dec_val acc [] = Some acc"
| "dec_val acc (c # cs) =
     (case digit_of c of None \<Rightarrow> None | Some d \<Rightarrow> dec_val (10 * acc + d) cs)"

definition array_index :: "string \<Rightarrow> nat option" where
  "array_index s =
     (if s = [] \<or> (hd s = CHR ''0'' \<and> s \<noteq> ''0'') then None else dec_val 0 s)"

text \<open>
  \<open>current?.[key]\<close>: nothing is read from \<open>undefined\<close> or \<open>null\<close>; an object gives its own
  property, an array or a string gives an element or its length, and every other read is
  \<open>undefined\<close>. Members inherited from the built-in prototypes (methods such as
  \<open>toString\<close>) are functions, not JSON values, and are outside this model.
\<close>

fun js_get :: "jsv \<Rightarrow> string \<Rightarrow> jsv" where
  "js_get (JObj kvs) key = (case map_of kvs key of Some v \<Rightarrow> v | None \<Rightarrow> JUndefined)"
| "js_get (JArr xs) key =
     (case array_index key of
        Some i \<Rightarrow> (if i < length xs then xs ! i else JUndefined)
      | None \<Rightarrow> (if key = ''length'' then JNum (of_nat (length xs)) else JUndefined))"
| "js_get (JStr s) key =
     (case array_index key of
        Some i \<Rightarrow> (if i < length s then JStr [s ! i] else JUndefined)
      | None \<Rightarrow> (if key = ''length'' then JNum (of_nat (length s)) else JUndefined))"
| "js_get v key = JUndefined"

text \<open>\<open>path.split('.').reduce((current, key) => current?.[key], obj)\<close>\<close>

definition getNestedValue :: "jsv \<Rightarrow> string \<Rightarrow> jsv" where
  "getNestedValue obj path = foldl js_get obj (split_dot path)"

subsection \<open>Conditions\<close>

record condition =
  cond_field :: jsv
  cond_type :: jsv
  cond_operator :: jsv
  cond_value :: jsv

text \<open>
  \<open>condition.field || condition.type\<close>, on which \<open>getNestedValue\<close> calls \<open>split\<close>: the
  call throws a \<open>TypeError\<close> unless the value is a string.
\<close>

definition cond_path :: "condition \<Rightarrow> js_error + string" where
  "cond_path c =
     (case (if truthy (cond_field c) then cond_field c else cond_type c) of
        JStr s \<Rightarrow> Inr s
      | JUndefined \<Rightarrow> Inl (TypeError ''Cannot read properties of undefined (reading 'split')'')
      | JNull \<Rightarrow> Inl (TypeError ''Cannot read properties of null (reading 'split')'')
      | _ \<Rightarrow> Inl (TypeError ''path.split is not a function''))"

text \<open>
  \<open>evaluateConditions(conditions, data)\<close>: the loop returns \<open>false\<close> at the first
  condition whose test fires and \<open>true\<close> when it runs to the end. The \<open>default\<close> branch of
  the \<open>switch\<close> only warns; the warnings are returned beside the result.
\<close>

fun evaluateConditions ::
  "js_runtime \<Rightarrow> condition list \<Rightarrow> jsv \<Rightarrow> (js_error + bool) \<times> string list" where
  "evaluateConditions rt [] d = (Inr True, [])"
| "evaluateConditions rt (c # cs) d =
     (case cond_path c of
        Inl e \<Rightarrow> (Inl e, [])
      | Inr path \<Rightarrow>
         (let v = getNestedValue d path;
              targetValue = cond_value c;
              op = cond_operator c
          in if op = JStr ''equals'' \<or> op = JStr ''eq'' then
               (if \<not> strict_eq v targetValue then (Inr False, [])
                else evaluateConditions rt cs d)
             else if op = JStr ''not_equals'' \<or> op = JStr ''ne'' then
               (if strict_eq v targetValue then (Inr False, [])
                else evaluateConditions rt cs d)
             else if op = JStr ''greater_than'' \<or> op = JStr ''gt'' then
               (if js_le rt v targetValue then (Inr False, [])
                else evaluateConditions rt cs d)
             else if op = JStr ''less_than'' \<or> op = JStr ''lt'' then
               (if js_ge rt v targetValue then (Inr False, [])
                else evaluateConditions rt cs d)
             else if op = JStr ''contains'' then
               (if \<not> str_includes (js_toString rt v) (js_toString rt targetValue)
                then (Inr False, [])
                else evaluateConditions rt cs d)
             else if op = JStr ''exists'' then
               (if v = JUndefined \<or> v = JNull then (Inr False, [])
                else evaluateConditions rt cs d)
             else
               (case evaluateConditions rt cs d of
                  (r, warns) \<Rightarrow>
                    (r, (''Unknown condition operator: '' @ js_toString rt op) # warns))))"


subsection \<open>Actions\<close>

text \<open>
  Modelled from the spec: \<open>config/constants.js\<close>, which defines \<open>WORKFLOW_ACTIONS\<close>, is
  not among the sources. The four type names are those of the spec's section 4.3
  (webhook, http_request, email, solana_transfer) and of the route's validation schema.
\<close>

definition WEBHOOK :: string where "WEBHOOK = ''webhook''"
definition HTTP_REQUEST :: string where "HTTP_REQUEST = ''http_request''"
definition EMAIL :: string where "EMAIL = ''email''"
definition SOLANA_TRANSFER :: string where "SOLANA_TRANSFER = ''solana_transfer''"

record action =
  act_type :: string
  act_config :: jsv

datatype action_result =
    HttpResult int jsv
  | EmailResult jsv
  | SolanaResult

text \<open>
  \<open>executeAction(action, data)\<close>. The webhook and HTTP actions make a request with axios;
  \<open>http i\<close> is what the request of the action at position \<open>i\<close> of the list comes to: a
  thrown error, or the status and data of the response. Reading a property of a
  configuration that is \<open>undefined\<close> or \<open>null\<close> throws.
\<close>

definition nullish :: "jsv \<Rightarrow> bool" where
  "nullish v = (v = JUndefined \<or> v = JNull)"

definition executeAction ::
  "(nat \<Rightarrow> js_error + (int \<times> jsv)) \<Rightarrow> nat \<Rightarrow> action \<Rightarrow> js_error + action_result" where
  "executeAction http i a =
     (if act_type a = WEBHOOK \<or> act_type a = HTTP_REQUEST then
        (if nullish (act_config a)
         then Inl (TypeError (if act_config a = JNull
                then ''Cannot read properties of null (reading 'url')''
                else ''Cannot read properties of undefined (reading 'url')''))
         else (case http i of Inl e \<Rightarrow> Inl e | Inr (st, d) \<Rightarrow> Inr (HttpResult st d)))
      else if act_type a = EMAIL then
        (if nullish (act_config a)
         then Inl (TypeError (if act_config a = JNull
                then ''Cannot read properties of null (reading 'to')''
                else ''Cannot read properties of undefined (reading 'to')''))
         else Inr (EmailResult (js_get (act_config a) ''to'')))
      else if act_type a = SOLANA_TRANSFER then Inr SolanaResult
      else Inl (Error (''Unknown action type: '' @ act_type a)))"

subsection \<open>Execution\<close>

text \<open>
  An entry of the local \<open>results\<close> array, the \<open>result\<close> object of an execution, and the
  argument of \<open>WorkflowExecution.updateStatus\<close>. A log entry is represented by its
  message; its \<open>time\<close> field is left out.
\<close>

record action_entry =
  entry_action :: string
  entry_success :: bool
  entry_result :: "action_result option"
  entry_error :: "string option"

datatype exec_result =
    EmptyResult
  | ReasonResult string
  | ActionsResult "action_entry list"

record exec_update =
  eu_status :: string
  eu_result :: "exec_result option"
  eu_error :: "string option"
  eu_logs :: "string list"

text \<open>
  What an execution does to the outside, in order: it runs actions and it issues the two
  kinds of store update, \<open>WorkflowExecution.updateStatus(executionId, ...)\<close> and
  \<open>Workflow.updateExecutionStats(workflow.id, success)\<close>. The store calls are taken to
  succeed.
\<close>

datatype effect =
    Ran nat action
  | ExecUpdateStatus string exec_update
  | UpdateExecutionStats string bool

record workflow =
  wf_id :: string
  wf_conditions :: "condition list option"
  wf_actions :: "js_error + action list"

text \<open>
  The \<open>for\<close> loop over the actions with its inner \<open>try\<close>/\<open>catch\<close>: position, actions left,
  \<open>results\<close>, \<open>logs\<close> and the effects so far. It ends with the error rethrown by the
  inner \<open>catch\<close>, if any, and with \<open>results\<close> and \<open>logs\<close> as they are at that point.
\<close>

fun run_actions ::
  "(nat \<Rightarrow> js_error + (int \<times> jsv)) \<Rightarrow> nat \<Rightarrow> action list \<Rightarrow> action_entry list \<Rightarrow> string list
     \<Rightarrow> effect list \<Rightarrow> js_error option \<times> action_entry list \<times> string list \<times> effect list" where
  "run_actions http i [] results logs effs = (None, results, logs, effs)"
| "run_actions http i (a # as) results logs effs =
     (let logs1 = logs @ [''Executing action: '' @ act_type a];
          effs1 = effs @ [Ran i a]
      in case executeAction http i a of
           Inr r \<Rightarrow>
             run_actions http (i + 1) as
               (results @ [\<lparr>entry_action = act_type a, entry_success = True,
                             entry_result = Some r, entry_error = None\<rparr>])
               (logs1 @ [''Action '' @ act_type a @ '' completed'']) effs1
         | Inl e \<Rightarrow>
             (Some e,
              results @ [\<lparr>entry_action = act_type a, entry_success = False,
                           entry_result = None, entry_error = Some (message e)\<rparr>],
              logs1 @ [''Action '' @ act_type a @ '' failed: '' @ message e],
              effs1))"

text \<open>The outer \<open>catch\<close> block: it has \<open>logs\<close> in scope, but not \<open>results\<close>.\<close>

definition catch_block ::
  "string \<Rightarrow> workflow \<Rightarrow> js_error \<Rightarrow> string list \<Rightarrow> effect list
     \<Rightarrow> (js_error + unit) \<times> effect list" where
  "catch_block executionId flow e logs effs =
     (Inl e,
      effs @ [ExecUpdateStatus executionId
                \<lparr>eu_status = ''failed'', eu_result = None, eu_error = Some (message e),
                 eu_logs = logs @ [''Workflow failed: '' @ message e]\<rparr>,
              UpdateExecutionStats (wf_id flow) False])"

text \<open>
  \<open>executeWorkflow(executionId, workflow, triggerData)\<close>. \<open>wf_actions\<close> is
  \<open>workflow.actions\<close> after the \<open>JSON.parse\<close> of a string value: \<open>Inl\<close> when that throws.
\<close>

definition run_from_actions ::
  "(nat \<Rightarrow> js_error + (int \<times> jsv)) \<Rightarrow> string \<Rightarrow> workflow \<Rightarrow> string list
     \<Rightarrow> (js_error + unit) \<times> effect list" where
  "run_from_actions http executionId flow logs =
     (case wf_actions flow of
        Inl e \<Rightarrow> catch_block executionId flow e logs []
      | Inr actions \<Rightarrow>
          (case run_actions http 0 actions [] logs [] of
             (Some e, results, logs1, effs) \<Rightarrow> catch_block executionId flow e logs1 effs
           | (None, results, logs1, effs) \<Rightarrow>
               (Inr (),
                effs @ [ExecUpdateStatus executionId
                          \<lparr>eu_status = ''success'', eu_result = Some (ActionsResult results),
                           eu_error = None, eu_logs = logs1\<rparr>,
                        UpdateExecutionStats (wf_id flow) True])))"

definition executeWorkflow ::
  "js_runtime \<Rightarrow> (nat \<Rightarrow> js_error + (int \<times> jsv)) \<Rightarrow> string \<Rightarrow> workflow \<Rightarrow> jsv
     \<Rightarrow> (js_error + unit) \<times> effect list" where
  "executeWorkflow rt http executionId flow triggerData =
     (let logs = [''Workflow started''] in
      case wf_conditions flow of
        None \<Rightarrow> run_from_actions http executionId flow logs
      | Some conds \<Rightarrow>
          if length conds > 0 then
            (case fst (evaluateConditions rt conds triggerData) of
               Inl e \<Rightarrow> catch_block executionId flow e logs []
             | Inr conditionsMet \<Rightarrow>
                 if \<not> conditionsMet then
                   (Inr (),
                    [ExecUpdateStatus executionId
                       \<lparr>eu_status = ''skipped'',
                        eu_result = Some (ReasonResult ''Conditions not met''),
                        eu_error = None,
                        eu_logs = logs @ [''Conditions not met, skipping'']\<rparr>])
                 else run_from_actions http executionId flow
                        (logs @ [''Conditions evaluated: passed'']))
          else run_from_actions http executionId flow logs)"

subsection \<open>Rejected store calls and the queue's retries\<close>

text \<open>
  \<open>executeWorkflow\<close> above takes every store call to succeed. The version below follows
  the same source function with the fate of each store call given from outside: \<open>db op\<close>
  is \<open>None\<close> when the call \<open>op\<close> succeeds and the error it rejects with otherwise (a
  rejected call is taken to have written nothing). The three store calls of the \<open>try\<close>
  block (the skipped update, the success update and the statistics update) are awaited
  there, so a rejection takes the \<open>catch\<close> block with \<open>logs\<close> as they are at that point.
  The two calls of the \<open>catch\<close> block are awaited outside any \<open>try\<close>: when one rejects,
  the function throws its error and the calls after it are not made.
\<close>

definition catch_block_store ::
  "(effect \<Rightarrow> js_error option) \<Rightarrow> string \<Rightarrow> workflow \<Rightarrow> js_error \<Rightarrow> string list
     \<Rightarrow> effect list \<Rightarrow> (js_error + unit) \<times> effect list" where
  "catch_block_store db executionId flow e logs effs =
     (let u = ExecUpdateStatus executionId
                \<lparr>eu_status = ''failed'', eu_result = None, eu_error = Some (message e),
                 eu_logs = logs @ [''Workflow failed: '' @ message e]\<rparr>
      in case db u of
           Some e1 \<Rightarrow> (Inl e1, effs)
         | None \<Rightarrow>
             (case db (UpdateExecutionStats (wf_id flow) False) of
                Some e2 \<Rightarrow> (Inl e2, effs @ [u])
              | None \<Rightarrow> (Inl e, effs @ [u, UpdateExecutionStats (wf_id flow) False])))"

definition run_from_actions_store ::
  "(effect \<Rightarrow> js_error option) \<Rightarrow> (nat \<Rightarrow> js_error + (int \<times> jsv)) \<Rightarrow> string \<Rightarrow> workflow
     \<Rightarrow> string list \<Rightarrow> (js_error + unit) \<times> effect list" where
  "run_from_actions_store db http executionId flow logs =
     (case wf_actions flow of
        Inl e \<Rightarrow> catch_block_store db executionId flow e logs []
      | Inr actions \<Rightarrow>
          (case run_actions http 0 actions [] logs [] of
             (Some e, results, logs1, effs) \<Rightarrow>
               catch_block_store db executionId flow e logs1 effs
           | (None, results, logs1, effs) \<Rightarrow>
               (let u = ExecUpdateStatus executionId
                          \<lparr>eu_status = ''success'',
                           eu_result = Some (ActionsResult results),
                           eu_error = None, eu_logs = logs1\<rparr>
                in case db u of
                     Some e \<Rightarrow> catch_block_store db executionId flow e logs1 effs
                   | None \<Rightarrow>
                       (case db (UpdateExecutionStats (wf_id flow) True) of
                          Some e \<Rightarrow>
                            catch_block_store db executionId flow e logs1 (effs @ [u])
                        | None \<Rightarrow>
                            (Inr (),
                             effs @ [u, UpdateExecutionStats (wf_id flow) True])))))"

definition executeWorkflow_store ::
  "js_runtime \<Rightarrow> (effect \<Rightarrow> js_error option) \<Rightarrow> (nat \<Rightarrow> js_error + (int \<times> jsv)) \<Rightarrow> string
     \<Rightarrow> workflow \<Rightarrow> jsv \<Rightarrow> (js_error + unit) \<times> effect list" where
  "executeWorkflow_store rt db http executionId flow triggerData =
     (let logs = [''Workflow started''] in
      case wf_conditions flow of
        None \<Rightarrow> run_from_actions_store db http executionId flow logs
      | Some conds \<Rightarrow>
          if length conds > 0 then
            (case fst (evaluateConditions rt conds triggerData) of
               Inl e \<Rightarrow> catch_block_store db executionId flow e logs []
             | Inr conditionsMet \<Rightarrow>
                 if \<not> conditionsMet then
                   (let logs1 = logs @ [''Conditions not met, skipping''];
                        u = ExecUpdateStatus executionId
                              \<lparr>eu_status = ''skipped'',
                               eu_result = Some (ReasonResult ''Conditions not met''),
                               eu_error = None, eu_logs = logs1\<rparr>
                    in case db u of
                         Some e \<Rightarrow> catch_block_store db executionId flow e logs1 []
                       | None \<Rightarrow> (Inr (), [u]))
                 else run_from_actions_store db http executionId flow
                        (logs @ [''Conditions evaluated: passed'']))
          else run_from_actions_store db http executionId flow logs)"

text \<open>
  The processor of \<open>workflowQueue\<close> runs \<open>executeWorkflow\<close> on the job's execution id,
  workflow and trigger data, and rethrows what it throws. The queue is created with
  \<open>attempts: config.workflow.maxRetries\<close>: a job whose processor throws is run again,
  with the same data, until it has been attempted that many times (a job is attempted at
  least once). \<open>db a\<close> and \<open>http a\<close> are the store and the network as attempt \<open>a\<close> finds
  them. The result is the outcome of the last attempt and the effects of every attempt,
  in order.
\<close>

fun run_job ::
  "js_runtime \<Rightarrow> (nat \<Rightarrow> effect \<Rightarrow> js_error option) \<Rightarrow> (nat \<Rightarrow> nat \<Rightarrow> js_error + (int \<times> jsv))
     \<Rightarrow> string \<Rightarrow> workflow \<Rightarrow> jsv \<Rightarrow> nat \<Rightarrow> nat \<Rightarrow> (js_error + unit) \<times> effect list list" where
  "run_job rt db http executionId flow triggerData attemptsMade 0 =
     (case executeWorkflow_store rt (db attemptsMade) (http attemptsMade) executionId flow
             triggerData of
        (r, effs) \<Rightarrow> (r, [effs]))"
| "run_job rt db http executionId flow triggerData attemptsMade (Suc left) =
     (case executeWorkflow_store rt (db attemptsMade) (http attemptsMade) executionId flow
             triggerData of
        (Inr u, effs) \<Rightarrow> (Inr u, [effs])
      | (Inl e, effs) \<Rightarrow>
          (case run_job rt db http executionId flow triggerData (attemptsMade + 1) left of
             (r, effss) \<Rightarrow> (r, effs # effss)))"

definition process_workflow_job ::
  "js_runtime \<Rightarrow> (nat \<Rightarrow> effect \<Rightarrow> js_error option) \<Rightarrow> (nat \<Rightarrow> nat \<Rightarrow> js_error + (int \<times> jsv))
     \<Rightarrow> nat \<Rightarrow> string \<Rightarrow> workflow \<Rightarrow> jsv \<Rightarrow> (js_error + unit) \<times> effect list list" where
  "process_workflow_job rt db http attempts executionId flow triggerData =
     run_job rt db http executionId flow triggerData 0 (attempts - 1)"

subsection \<open>The store as the updates leave it\<close>

text \<open>
  \<open>WorkflowExecution.updateStatus\<close> stores \<open>JSON.stringify(result || {})\<close>, the error
  (NULL when left out) and the logs; \<open>Workflow.updateExecutionStats\<close> adds one to
  \<open>execution_count\<close> and sets \<open>last_execution_status\<close> to success or failed.
\<close>

record exec_row =
  ex_status :: string
  ex_result :: exec_result
  ex_error :: "string option"
  ex_logs :: "string list"

record wf_row =
  execution_count :: nat
  last_execution_status :: "string option"

record store =
  workflow_executions :: "string \<Rightarrow> exec_row option"
  workflows :: "string \<Rightarrow> wf_row option"

fun apply_effect :: "effect \<Rightarrow> store \<Rightarrow> store" where
  "apply_effect (Ran i a) db = db"
| "apply_effect (ExecUpdateStatus eid u) db =
     (case workflow_executions db eid of
        None \<Rightarrow> db
      | Some r \<Rightarrow>
          db\<lparr>workflow_executions := (workflow_executions db)
               (eid \<mapsto> \<lparr>ex_status = eu_status u,
                         ex_result = (case eu_result u of None \<Rightarrow> EmptyResult | Some x \<Rightarrow> x),
                         ex_error = eu_error u, ex_logs = eu_logs u\<rparr>)\<rparr>)"
| "apply_effect (UpdateExecutionStats wid ok) db =
     (case workflows db wid of
        None \<Rightarrow> db
      | Some w \<Rightarrow>
          db\<lparr>workflows := (workflows db)
               (wid \<mapsto> \<lparr>execution_count = execution_count w + 1,
                         last_execution_status = Some (if ok then ''success'' else ''failed'')\<rparr>)\<rparr>)"

definition apply_effects :: "effect list \<Rightarrow> store \<Rightarrow> store" where
  "apply_effects effs db = foldl (\<lambda>s e. apply_effect e s) db effs"

text \<open>\<open>result.actions\<close> of a stored result: \<open>None\<close> is \<open>undefined\<close>.\<close>

fun result_actions :: "exec_result \<Rightarrow> action_entry list option" where
  "result_actions (ActionsResult es) = Some es"
| "result_actions r = None"

text \<open>Projections of an execution's effects.\<close>

fun ran_actions :: "effect list \<Rightarrow> (nat \<times> action) list" where
  "ran_actions [] = []"
| "ran_actions (Ran i a # es) = (i, a) # ran_actions es"
| "ran_actions (e # es) = ran_actions es"

fun status_updates :: "effect list \<Rightarrow> string list" where
  "status_updates [] = []"
| "status_updates (ExecUpdateStatus eid u # es) = eu_status u # status_updates es"
| "status_updates (e # es) = status_updates es"

fun stats_updates :: "effect list \<Rightarrow> (string \<times> bool) list" where
  "stats_updates [] = []"
| "stats_updates (UpdateExecutionStats wid ok # es) = (wid, ok) # stats_updates es"
| "stats_updates (e # es) = stats_updates es"

section \<open>Sliding-window rate limiter (utils/cache.js)\<close>

subsection \<open>The sorted-set commands of the counter store\<close>

text \<open>
  A member of the sorted set is the string \<open>`${now}-${Math.random()}`\<close>: it is
  represented by the timestamp and the random draw it is built from (two such strings are
  equal exactly when both parts are; the draw is abstracted to a natural number). A key
  holds its members with their scores and, once \<open>EXPIRE\<close> has been called, the time at
  which the store deletes it. Times are milliseconds.
\<close>

type_synonym member = "int \<times> nat"

record zset =
  entries :: "(member \<times> int) list"
  expireAt :: "int option"

type_synonym redis = "string \<Rightarrow> zset option"

text \<open>Every command first sees the key deleted if its time to live has run out.\<close>

definition purge :: "int \<Rightarrow> string \<Rightarrow> redis \<Rightarrow> redis" where
  "purge t k s =
     (case s k of
        None \<Rightarrow> s
      | Some z \<Rightarrow>
          (case expireAt z of
             None \<Rightarrow> s
           | Some e \<Rightarrow> if e \<le> t then s(k := None) else s))"

text \<open>
  \<open>ZREMRANGEBYSCORE key lo hi\<close> removes the members whose score lies in \<open>[lo, hi]\<close>; a
  sorted set that becomes empty is deleted.
\<close>

definition zremrangebyscore :: "string \<Rightarrow> int \<Rightarrow> int \<Rightarrow> int \<Rightarrow> redis \<Rightarrow> redis" where
  "zremrangebyscore k lo hi t s =
     (let s1 = purge t k s in
      case s1 k of
        None \<Rightarrow> s1
      | Some z \<Rightarrow>
          (let es = filter (\<lambda>(m, sc). \<not> (lo \<le> sc \<and> sc \<le> hi)) (entries z)
           in if es = [] then s1(k := None) else s1(k \<mapsto> z\<lparr>entries := es\<rparr>)))"

definition zcard :: "string \<Rightarrow> int \<Rightarrow> redis \<Rightarrow> nat" where
  "zcard k t s = (case purge t k s k of None \<Rightarrow> 0 | Some z \<Rightarrow> length (entries z))"

text \<open>\<open>ZADD key score member\<close> adds the member, or sets the score of a member already there.\<close>

fun zadd_entry :: "member \<Rightarrow> int \<Rightarrow> (member \<times> int) list \<Rightarrow> (member \<times> int) list" where
  "zadd_entry m sc [] = [(m, sc)]"
| "zadd_entry m sc ((m', sc') # es) =
     (if m' = m then (m, sc) # es else (m', sc') # zadd_entry m sc es)"

definition zadd :: "string \<Rightarrow> int \<Rightarrow> member \<Rightarrow> int \<Rightarrow> redis \<Rightarrow> redis" where
  "zadd k sc m t s =
     (let s1 = purge t k s in
      case s1 k of
        None \<Rightarrow> s1(k \<mapsto> \<lparr>entries = [(m, sc)], expireAt = None\<rparr>)
      | Some z \<Rightarrow> s1(k \<mapsto> z\<lparr>entries := zadd_entry m sc (entries z)\<rparr>))"

text \<open>\<open>EXPIRE key seconds\<close>; a time to live that is not positive deletes the key.\<close>

definition expire :: "string \<Rightarrow> int \<Rightarrow> int \<Rightarrow> redis \<Rightarrow> redis" where
  "expire k seconds t s =
     (let s1 = purge t k s in
      case s1 k of
        None \<Rightarrow> s1
      | Some z \<Rightarrow>
          if seconds \<le> 0 then s1(k := None)
          else s1(k \<mapsto> z\<lparr>expireAt := Some (t + seconds * 1000)\<rparr>))"

subsection \<open>checkRateLimit\<close>

record rate_result =
  allowed :: bool
  remaining :: int
  reset :: int

text \<open>
  \<open>checkRateLimit(key, maxRequests, windowSeconds)\<close>. \<open>now\<close> is \<open>Date.now()\<close> and \<open>rnd\<close>
  the draw of \<open>Math.random()\<close>; the whole call is taken to happen at the instant \<open>now\<close>.
  \<open>outage\<close> tells which of the four store commands, counted from 0, rejects (and then has
  no effect), \<open>None\<close> when the store is reachable throughout: the \<open>catch\<close> block allows the
  request.
\<close>

definition checkRateLimit ::
  "nat option \<Rightarrow> string \<Rightarrow> int \<Rightarrow> int \<Rightarrow> int \<Rightarrow> nat \<Rightarrow> redis \<Rightarrow> rate_result \<times> redis" where
  "checkRateLimit outage key maxRequests windowSeconds now rnd s =
     (let windowStart = now - windowSeconds * 1000;
          on_error = (\<lambda>s'. (\<lparr>allowed = True, remaining = maxRequests,
                                reset = windowSeconds\<rparr>, s'))
      in if outage = Some 0 then on_error s
         else
           (let s1 = zremrangebyscore key 0 windowStart now s in
            if outage = Some 1 then on_error s1
            else
              (let count = int (zcard key now s1) in
               if count \<ge> maxRequests
               then (\<lparr>allowed = False, remaining = 0, reset = windowSeconds\<rparr>, s1)
               else if outage = Some 2 then on_error s1
               else
                 (let s2 = zadd key now (now, rnd) now s1 in
                  if outage = Some 3 then on_error s2
                  else
                    (let s3 = expire key windowSeconds now s2 in
                     (\<lparr>allowed = True, remaining = maxRequests - count - 1,
                       reset = windowSeconds\<rparr>, s3))))))"

text \<open>
  Calls made one after the other against a reachable store, each with its \<open>Date.now()\<close>
  and its random draw; the result is the list of their \<open>allowed\<close> flags and the store
  afterwards.
\<close>

fun checks :: "string \<Rightarrow> int \<Rightarrow> int \<Rightarrow> (int \<times> nat) list \<Rightarrow> redis \<Rightarrow> bool list \<times> redis" where
  "checks key maxRequests windowSeconds [] s = ([], s)"
| "checks key maxRequests windowSeconds ((now, rnd) # cs) s =
     (case checkRateLimit None key maxRequests windowSeconds now rnd s of
        (r, s1) \<Rightarrow>
          (case checks key maxRequests windowSeconds cs s1 of
             (bs, s2) \<Rightarrow> (allowed r # bs, s2)))"

subsection \<open>Concurrent requests\<close>

text \<open>
  Each \<open>await\<close> of \<open>checkRateLimit\<close> sends one command to the store and yields; the store
  runs the commands it receives one at a time, so concurrent requests interleave command
  by command. A request in flight is at one of its four commands (after \<open>ZCARD\<close> it holds
  the count it read) or has returned.
\<close>

datatype progress =
    AtRemove
  | AtCard
  | AtAdd int
  | AtExpire int
  | Returned rate_result

record request =
  req_now :: int
  req_rnd :: nat
  req_at :: progress

text \<open>The next command of a request, run by the store at time \<open>t\<close>.\<close>

definition request_step ::
  "string \<Rightarrow> int \<Rightarrow> int \<Rightarrow> int \<Rightarrow> request \<Rightarrow> redis \<Rightarrow> request \<times> redis" where
  "request_step key maxRequests windowSeconds t r s =
     (case req_at r of
        AtRemove \<Rightarrow>
          (r\<lparr>req_at := AtCard\<rparr>,
           zremrangebyscore key 0 (req_now r - windowSeconds * 1000) t s)
      | AtCard \<Rightarrow>
          (let count = int (zcard key t s) in
           if count \<ge> maxRequests
           then (r\<lparr>req_at := Returned
                    \<lparr>allowed = False, remaining = 0, reset = windowSeconds\<rparr>\<rparr>, s)
           else (r\<lparr>req_at := AtAdd count\<rparr>, s))
      | AtAdd count \<Rightarrow>
          (r\<lparr>req_at := AtExpire count\<rparr>, zadd key (req_now r) (req_now r, req_rnd r) t s)
      | AtExpire count \<Rightarrow>
          (r\<lparr>req_at := Returned
               \<lparr>allowed = True, remaining = maxRequests - count - 1,
                reset = windowSeconds\<rparr>\<rparr>,
           expire key windowSeconds t s)
      | Returned res \<Rightarrow> (r, s))"

text \<open>
  Two requests for the same key and a schedule: each element says which request's next
  command the store runs (\<open>False\<close> the first, \<open>True\<close> the second) and at what time.
\<close>

fun interleave ::
  "string \<Rightarrow> int \<Rightarrow> int \<Rightarrow> (bool \<times> int) list \<Rightarrow> request \<times> request \<times> redis
     \<Rightarrow> request \<times> request \<times> redis" where
  "interleave key maxRequests windowSeconds [] st = st"
| "interleave key maxRequests windowSeconds ((second, t) # sched) (a, b, s) =
     (if second
      then (case request_step key maxRequests windowSeconds t b s of
              (b1, s1) \<Rightarrow> interleave key maxRequests windowSeconds sched (a, b1, s1))
      else (case request_step key maxRequests windowSeconds t a s of
              (a1, s1) \<Rightarrow> interleave key maxRequests windowSeconds sched (a1, b, s1)))"



definition example_webhook :: webhook where
  "example_webhook = \<lparr>webhook_id = ''w1'', url = ''https://hooks.example'', secret = ''s''\<rparr>"

definition example_row :: delivery_row where
  "example_row = \<lparr>row_status = ''pending'', row_response_code = None, row_response_body = None,
                   row_error = None, row_duration_ms = None, row_attempt = 1\<rparr>"

definition example_runtime :: js_runtime where
  "example_runtime = \<lparr>StringToNumber = (\<lambda>s. None), NumberToString = (\<lambda>q. ''0'')\<rparr>"

definition amount_greater_than_100 :: condition where
  "amount_greater_than_100 =
     \<lparr>cond_field = JUndefined, cond_type = JStr ''amount'',
      cond_operator = JStr ''greater_than'', cond_value = JNum 100\<rparr>"


definition action_A :: action where
  "action_A = \<lparr>act_type = ''webhook'', act_config = JObj [(''url'', JStr ''https://a.example'')]\<rparr>"

definition action_B :: action where
  "action_B = \<lparr>act_type = ''email'', act_config = JObj [(''to'', JStr ''b@example.org'')]\<rparr>"

definition action_C :: action where
  "action_C = \<lparr>act_type = ''solana_transfer'', act_config = JObj []\<rparr>"

definition example_workflow :: "condition list \<Rightarrow> workflow" where
  "example_workflow conds =
     \<lparr>wf_id = ''w1'', wf_conditions = Some conds,
      wf_actions = Inr [action_A, action_B, action_C]\<rparr>"

definition refuse_connection :: "nat \<Rightarrow> js_error + (int \<times> jsv)" where
  "refuse_connection i = Inl (Error ''connect ECONNREFUSED'')"

definition respond_ok :: "nat \<Rightarrow> js_error + (int \<times> jsv)" where
  "respond_ok i = Inr (200, JNull)"

definition store_up :: "'op \<Rightarrow> js_error option" where
  "store_up op = None"

definition always_up :: "nat \<Rightarrow> effect \<Rightarrow> js_error option" where
  "always_up attempt op = None"

definition always_refused :: "nat \<Rightarrow> nat \<Rightarrow> js_error + (int \<times> jsv)" where
  "always_refused attempt i = Inl (Error ''connect ECONNREFUSED'')"

definition stats_rejected :: "effect \<Rightarrow> js_error option" where
  "stats_rejected op =
     (case op of
        UpdateExecutionStats wid ok \<Rightarrow> if ok then Some (Error ''deadlock detected'') else None
      | _ \<Rightarrow> None)"

definition update_rejected :: "wh_op \<Rightarrow> js_error option" where
  "update_rejected op =
     (case op of
        DeliveryUpdateStatus d u \<Rightarrow>
          if upd_status u = ''success'' then Some (Error ''connection terminated'') else None
      | _ \<Rightarrow> None)"

definition example_store :: store where
  "example_store =
     \<lparr>workflow_executions =
        [''e1'' \<mapsto> \<lparr>ex_status = ''running'', ex_result = EmptyResult, ex_error = None,
                     ex_logs = []\<rparr>],
      workflows = [''w1'' \<mapsto> \<lparr>execution_count = 4, last_execution_status = None\<rparr>]\<rparr>"

text \<open>
  A key with four live entries under a limit of 5, and two requests whose commands reach
  the store in the order remove, count (first request), remove, count (second request),
  add, expire (first), add, expire (second).
\<close>

definition one_slot_left :: redis where
  "one_slot_left =
     (\<lambda>k. None)(''ratelimit:key:1'' \<mapsto>
        \<lparr>entries = [((1000, 1), 1000), ((2000, 2), 2000), ((3000, 3), 3000),
                    ((4000, 4), 4000)],
         expireAt = Some 64000\<rparr>)"

definition request_a :: request where
  "request_a = \<lparr>req_now = 5000, req_rnd = 5, req_at = AtRemove\<rparr>"

definition request_b :: request where
  "request_b = \<lparr>req_now = 5001, req_rnd = 6, req_at = AtRemove\<rparr>"

definition race_schedule :: "(bool \<times> int) list" where
  "race_schedule =
     [(False, 5000), (False, 5001), (True, 5002), (True, 5003),
      (False, 5004), (False, 5005), (True, 5006), (True, 5007)]"


section \<open>Properties\<close>

subsection \<open>Balance proof precondition\<close>

text \<open>
  C2. \<open>generateBalanceProof(balance, threshold)\<close> with \<open>balance < threshold\<close> throws the
  precondition error and the prover's call log stays empty; with
  \<open>balance \<ge> threshold\<close> the prover is invoked exactly once, and what the function returns
  is the prover's outcome: its proof and public signals when it returns them, its error
  when it throws.
\<close>

theorem generateBalanceProof_precondition:
  "BigInt balance = Inr b \<Longrightarrow> BigInt thr = Inr t \<Longrightarrow>
     (b < t \<longrightarrow>
        generateBalanceProof BigInt toString fullProve balance thr =
          (Inl (Error ''Balance is below threshold - cannot generate valid proof''), []))
   \<and> (t \<le> b \<longrightarrow>
        length (snd (generateBalanceProof BigInt toString fullProve balance thr)) = 1
      \<and> call_inputs (hd (snd (generateBalanceProof BigInt toString fullProve balance thr)))
          = \<lparr>in_balance = b, in_threshold = t\<rparr>
      \<and> map_sum id (\<lambda>r. (proof_obj r, publicSignals r))
            (fst (generateBalanceProof BigInt toString fullProve balance thr))
          = fullProve \<lparr>in_balance = b, in_threshold = t\<rparr>
              (COMPILED_DIR @ [''balance_threshold_js'', ''balance_threshold.wasm''])
              (KEYS_DIR @ [''balance_threshold_final.zkey'']))"
  by (auto simp: generateBalanceProof_def Let_def split: sum.splits prod.splits)

text \<open>
  The spec's two examples, with \<open>BigInt\<close> the identity on integers and a prover that
  answers with a fixed proof and the signals \<open>[threshold, 1]\<close>: balance 50 against
  threshold 100 is refused without a prover call, balance 150 against threshold 100 makes
  one call and returns what the prover gave.
\<close>

theorem generateBalanceProof_precondition_witness:
  "generateBalanceProof Inr (\<lambda>_. ''100'') (\<lambda>i w z. Inr (''pi'', [in_threshold i, 1])) 50 100
     = (Inl (Error ''Balance is below threshold - cannot generate valid proof''), [])
   \<and> length (snd (generateBalanceProof Inr (\<lambda>_. ''100'')
         (\<lambda>i w z. Inr (''pi'', [in_threshold i, 1])) 150 100)) = 1
   \<and> map_sum id (\<lambda>r. (proof_obj r, publicSignals r))
         (fst (generateBalanceProof Inr (\<lambda>_. ''100'')
           (\<lambda>i w z. Inr (''pi'', [in_threshold i, 1])) 150 100))
       = Inr (''pi'', [100, 1])"
  using generateBalanceProof_precondition
          [of Inr "50::int" 50 "100::int" 100 "\<lambda>_. ''100''"
              "\<lambda>i w z. Inr (''pi'', [in_threshold i, 1])"]
        generateBalanceProof_precondition
          [of Inr "150::int" 150 "100::int" 100 "\<lambda>_. ''100''"
              "\<lambda>i w z. Inr (''pi'', [in_threshold i, 1])"]
  by simp

subsection \<open>Bounded proof queue\<close>

text \<open>
  C6, as the spec states it, fails on a job whose circuit is unknown: the circuit lookup
  comes first, so with the queue at its bound the error is the circuit-not-found error and
  not the queue-full error. Here the bound is 1 and one job is waiting.
\<close>

theorem queueProofGeneration_unknown_circuit_counterexample:
  "getWaitingCount [\<lparr>circuitId = ''balance'', inputs = (), callbackUrl = None, userId = ''u''\<rparr>] \<ge> 1
   \<and> queueProofGeneration 1 ''p2''
        \<lparr>circuitId = ''nope'', inputs = (), callbackUrl = None, userId = ''u''\<rparr>
        [\<lparr>circuitId = ''balance'', inputs = (), callbackUrl = None, userId = ''u''\<rparr>]
      = (Inl (Error ''Circuit nope not found''),
         [\<lparr>circuitId = ''balance'', inputs = (), callbackUrl = None, userId = ''u''\<rparr>])
   \<and> Error ''Circuit nope not found'' \<noteq> Error ''Proof queue is full. Please try again later.''"
  by (simp add: queueProofGeneration_def getCircuit_def CIRCUITS_def getWaitingCount_def)

text \<open>
  C6, amended. For a job whose \<open>circuitId\<close> names one of the known circuits,
  \<open>queueProofGeneration\<close> throws the queue-full error and leaves the queue as it was
  whenever the waiting count has reached \<open>config.zkProof.maxQueueSize\<close>, and below that
  bound it adds the job behind the waiting ones. A job with an unknown circuit is refused
  with the circuit-not-found error whatever the queue holds, and is not enqueued.
\<close>

theorem queueProofGeneration_bounded:
  "(getCircuit (circuitId d) \<noteq> None \<and> maxQueueSize \<le> getWaitingCount q \<longrightarrow>
      queueProofGeneration maxQueueSize proofId d q =
        (Inl (Error ''Proof queue is full. Please try again later.''), q))
   \<and> (getCircuit (circuitId d) \<noteq> None \<and> getWaitingCount q < maxQueueSize \<longrightarrow>
      queueProofGeneration maxQueueSize proofId d q = (Inr (), q @ [d]))
   \<and> (getCircuit (circuitId d) = None \<longrightarrow>
      queueProofGeneration maxQueueSize proofId d q =
        (Inl (Error (''Circuit '' @ circuitId d @ '' not found'')), q))"
  by (auto simp: queueProofGeneration_def queue_add_def Let_def split: option.splits)

theorem queueProofGeneration_bounded_witness:
  "queueProofGeneration 1 ''p2''
        \<lparr>circuitId = ''holder'', inputs = (), callbackUrl = None, userId = ''u''\<rparr>
        [\<lparr>circuitId = ''balance'', inputs = (), callbackUrl = None, userId = ''u''\<rparr>]
      = (Inl (Error ''Proof queue is full. Please try again later.''),
         [\<lparr>circuitId = ''balance'', inputs = (), callbackUrl = None, userId = ''u''\<rparr>])
   \<and> queueProofGeneration 2 ''p2''
        \<lparr>circuitId = ''holder'', inputs = (), callbackUrl = None, userId = ''u''\<rparr>
        [\<lparr>circuitId = ''balance'', inputs = (), callbackUrl = None, userId = ''u''\<rparr>]
      = (Inr (),
         [\<lparr>circuitId = ''balance'', inputs = (), callbackUrl = None, userId = ''u''\<rparr>,
          \<lparr>circuitId = ''holder'', inputs = (), callbackUrl = None, userId = ''u''\<rparr>])
   \<and> queueProofGeneration 2 ''p2''
        \<lparr>circuitId = ''nope'', inputs = (), callbackUrl = None, userId = ''u''\<rparr> []
      = (Inl (Error ''Circuit nope not found''), [])"
  using queueProofGeneration_bounded
          [of "\<lparr>circuitId = ''holder'', inputs = (), callbackUrl = None, userId = ''u''\<rparr>" 1
              "[\<lparr>circuitId = ''balance'', inputs = (), callbackUrl = None, userId = ''u''\<rparr>]" "''p2''"]
        queueProofGeneration_bounded
          [of "\<lparr>circuitId = ''holder'', inputs = (), callbackUrl = None, userId = ''u''\<rparr>" 2
              "[\<lparr>circuitId = ''balance'', inputs = (), callbackUrl = None, userId = ''u''\<rparr>]" "''p2''"]
        queueProofGeneration_bounded
          [of "\<lparr>circuitId = ''nope'', inputs = (), callbackUrl = None, userId = ''u''\<rparr>" 2
              "[]::unit proof_queue" "''p2''"]
  by (simp add: getCircuit_def CIRCUITS_def getWaitingCount_def)

subsection \<open>Provider health\<close>





subsection \<open>Webhook delivery classification\<close>

text \<open>
  C7, as the spec states it, fails for a status of 500: axios rejects the response, the
  only update of the delivery record is the one of the \<open>catch\<close> block, and it carries
  neither the response code nor the body.
\<close>

theorem deliverWebhook_500_counterexample:
  "deliverWebhook store_up ''d1'' example_webhook (Response 500 ''{}'') 12 13
     = (Inl (Error ''Request failed with status code 500''),
        [DeliveryUpdateStatus ''d1''
           \<lparr>upd_status = ''failed'', upd_responseCode = None, upd_responseBody = None,
            upd_error = Some ''Request failed with status code 500'', upd_duration = 13\<rparr>])"
  by (simp add: deliverWebhook_def show_int_def store_up_def Let_def)

text \<open>
  C7, amended. With the store calls succeeding, \<open>deliverWebhook\<close> classifies exactly the
  statuses in [200,300) as success: for them the delivery record is updated to success
  with the response code and the first 1000 characters of the body, the webhook's
  last-triggered time is updated, and the success result is returned. For every other
  status the attempt raises an error, so that it consumes one retry slot. For such a
  status below 500 the error is raised after an update to failed that carries the
  response code and the truncated body, and the record ends as failed. A status of 500 or
  more is rejected by the HTTP client, as is a call without a response: the one update
  then made marks the record failed with the error message and the duration, and with
  neither a response code nor a body.
\<close>

theorem deliverWebhook_classification:
  "\<forall>op. db op = None \<Longrightarrow>
   (200 \<le> st \<and> st < 300 \<longrightarrow>
      deliverWebhook db d wh (Response st body) dur dur' =
        (Inr \<lparr>res_success = True, statusCode = st, res_duration = dur\<rparr>,
         [DeliveryUpdateStatus d
            \<lparr>upd_status = ''success'', upd_responseCode = Some st,
             upd_responseBody = Some (take 1000 body), upd_error = None,
             upd_duration = dur\<rparr>,
          WebhookUpdateLastTriggered (webhook_id wh)]))
   \<and> (\<not> (200 \<le> st \<and> st < 300) \<and> st < 500 \<longrightarrow>
      fst (deliverWebhook db d wh (Response st body) dur dur') =
        Inl (Error (''Webhook returned '' @ show_int st))
    \<and> hd (snd (deliverWebhook db d wh (Response st body) dur dur')) =
        DeliveryUpdateStatus d
          \<lparr>upd_status = ''failed'', upd_responseCode = Some st,
           upd_responseBody = Some (take 1000 body), upd_error = None, upd_duration = dur\<rparr>
    \<and> row_status (apply_wh_ops d (snd (deliverWebhook db d wh (Response st body) dur dur')) row)
        = ''failed'')
   \<and> (500 \<le> st \<longrightarrow>
      deliverWebhook db d wh (Response st body) dur dur' =
        (Inl (Error (''Request failed with status code '' @ show_int st)),
         [DeliveryUpdateStatus d
            \<lparr>upd_status = ''failed'', upd_responseCode = None, upd_responseBody = None,
             upd_error = Some (''Request failed with status code '' @ show_int st),
             upd_duration = dur'\<rparr>]))
   \<and> deliverWebhook db d wh (NoResponse m) dur dur' =
        (Inl (Error m),
         [DeliveryUpdateStatus d
            \<lparr>upd_status = ''failed'', upd_responseCode = None, upd_responseBody = None,
             upd_error = Some m, upd_duration = dur'\<rparr>])"
  by (simp add: deliverWebhook_def Let_def updateStatus_row_def)

theorem deliverWebhook_classification_witness:
  "deliverWebhook store_up ''d1'' example_webhook (Response 204 ''null'') 12 13 =
        (Inr \<lparr>res_success = True, statusCode = 204, res_duration = 12\<rparr>,
         [DeliveryUpdateStatus ''d1''
            \<lparr>upd_status = ''success'', upd_responseCode = Some 204,
             upd_responseBody = Some ''null'', upd_error = None, upd_duration = 12\<rparr>,
          WebhookUpdateLastTriggered ''w1''])
   \<and> fst (deliverWebhook store_up ''d1'' example_webhook (Response 404 ''{}'') 12 13) =
        Inl (Error ''Webhook returned 404'')
   \<and> hd (snd (deliverWebhook store_up ''d1'' example_webhook (Response 404 ''{}'') 12 13)) =
        DeliveryUpdateStatus ''d1''
          \<lparr>upd_status = ''failed'', upd_responseCode = Some 404,
           upd_responseBody = Some ''{}'', upd_error = None, upd_duration = 12\<rparr>
   \<and> row_status (apply_wh_ops ''d1''
        (snd (deliverWebhook store_up ''d1'' example_webhook (Response 404 ''{}'') 12 13))
        example_row) = ''failed''
   \<and> deliverWebhook store_up ''d1'' example_webhook (Response 503 ''{}'') 12 13 =
        (Inl (Error ''Request failed with status code 503''),
         [DeliveryUpdateStatus ''d1''
            \<lparr>upd_status = ''failed'', upd_responseCode = None, upd_responseBody = None,
             upd_error = Some ''Request failed with status code 503'', upd_duration = 13\<rparr>])"
proof -
  have up: "\<forall>op. (store_up :: wh_op \<Rightarrow> js_error option) op = None"
    by (simp add: store_up_def)
  from deliverWebhook_classification
         [OF up, of 204 "''d1''" example_webhook "''null''" 12 13 example_row]
       deliverWebhook_classification
         [OF up, of 404 "''d1''" example_webhook "''{}''" 12 13 example_row]
       deliverWebhook_classification
         [OF up, of 503 "''d1''" example_webhook "''{}''" 12 13 example_row]
  show ?thesis
    by (simp add: show_int_def example_webhook_def)
qed

text \<open>
  A defect of the code that the amended claim leaves aside. For a status outside 2xx and
  below 500 the \<open>throw\<close> sits inside the \<open>try\<close> block, so the \<open>catch\<close> block issues a
  second update of the same record; \<open>updateStatus\<close> sets every column, and this update
  names neither \<open>responseCode\<close> nor \<open>responseBody\<close>. The response code and the body
  that the first update recorded are therefore overwritten with NULL: the row ends as
  failed with the error message alone.
\<close>

lemma deliverWebhook_response_overwritten:
  assumes "\<forall>op. db op = None" and "\<not> (200 \<le> st \<and> st < 300)" and "st < 500"
  shows "snd (deliverWebhook db d wh (Response st body) dur dur') =
           [DeliveryUpdateStatus d
              \<lparr>upd_status = ''failed'', upd_responseCode = Some st,
               upd_responseBody = Some (take 1000 body), upd_error = None,
               upd_duration = dur\<rparr>,
            DeliveryUpdateStatus d
              \<lparr>upd_status = ''failed'', upd_responseCode = None, upd_responseBody = None,
               upd_error = Some (''Webhook returned '' @ show_int st), upd_duration = dur'\<rparr>]"
    and "row_response_code
           (apply_wh_ops d (snd (deliverWebhook db d wh (Response st body) dur dur')) row)
         = None"
    and "row_response_body
           (apply_wh_ops d (snd (deliverWebhook db d wh (Response st body) dur dur')) row)
         = None"
  using assms by (simp_all add: deliverWebhook_def Let_def updateStatus_row_def)

lemma deliverWebhook_404_final_row:
  "apply_wh_ops ''d1''
     (snd (deliverWebhook store_up ''d1'' example_webhook (Response 404 ''{}'') 12 13))
     example_row
   = \<lparr>row_status = ''failed'', row_response_code = None, row_response_body = None,
      row_error = Some ''Webhook returned 404'', row_duration_ms = Some 13, row_attempt = 1\<rparr>"
  by (simp add: deliverWebhook_def Let_def updateStatus_row_def store_up_def show_int_def
        example_row_def)

text \<open>
  When the store rejects the first update, the \<open>catch\<close> block runs with the store's
  error: a delivery that the receiver answered, with a 2xx status too, is then recorded
  as failed and the store's error is thrown.
\<close>

lemma deliverWebhook_store_rejects:
  assumes "st < 500"
    and "db (DeliveryUpdateStatus d
              \<lparr>upd_status = (if 200 \<le> st \<and> st < 300 then ''success'' else ''failed''),
               upd_responseCode = Some st, upd_responseBody = Some (take 1000 body),
               upd_error = None, upd_duration = dur\<rparr>) = Some e"
    and "db (DeliveryUpdateStatus d
              \<lparr>upd_status = ''failed'', upd_responseCode = None, upd_responseBody = None,
               upd_error = Some (message e), upd_duration = dur'\<rparr>) = None"
  shows "deliverWebhook db d wh (Response st body) dur dur' =
           (Inl e,
            [DeliveryUpdateStatus d
               \<lparr>upd_status = ''failed'', upd_responseCode = None, upd_responseBody = None,
                upd_error = Some (message e), upd_duration = dur'\<rparr>])"
  using assms by (simp add: deliverWebhook_def Let_def)

subsection \<open>Workflow conditions\<close>

lemma missing_amount: "getNestedValue (JObj []) ''amount'' = JUndefined"
  by (simp add: getNestedValue_def)

lemma le_undefined: "js_le rt JUndefined (JNum q) = False"
  by (simp add: js_le_def js_less_def)

text \<open>
  C4. The claim says that a \<open>greater_than\<close> condition over a field that is missing from the
  trigger data is unmet and the execution is skipped. On the code the lookup does yield
  \<open>undefined\<close>, but \<open>undefined <= 100\<close> is false, so the test
  \<open>if (value <= targetValue) return false\<close> does not fire: \<open>evaluateConditions\<close> returns
  \<open>true\<close>, and the workflow runs its three actions and ends as success.
\<close>

theorem evaluateConditions_missing_field_greater_than:
  "evaluateConditions rt [amount_greater_than_100] (JObj []) = (Inr True, [])
   \<and> ran_actions (snd (executeWorkflow rt respond_ok ''e1''
         (example_workflow [amount_greater_than_100]) (JObj [])))
       = [(0, action_A), (1, action_B), (2, action_C)]
   \<and> status_updates (snd (executeWorkflow rt respond_ok ''e1''
         (example_workflow [amount_greater_than_100]) (JObj [])))
       = [''success'']"
proof -
  have met: "evaluateConditions rt [amount_greater_than_100] (JObj []) = (Inr True, [])"
    by (simp add: amount_greater_than_100_def cond_path_def missing_amount le_undefined)
  have run: "run_actions respond_ok 0 [action_A, action_B, action_C] [] logs []
       = (None,
          [\<lparr>entry_action = ''webhook'', entry_success = True,
            entry_result = Some (HttpResult 200 JNull), entry_error = None\<rparr>,
           \<lparr>entry_action = ''email'', entry_success = True,
            entry_result = Some (EmailResult (JStr ''b@example.org'')), entry_error = None\<rparr>,
           \<lparr>entry_action = ''solana_transfer'', entry_success = True,
            entry_result = Some SolanaResult, entry_error = None\<rparr>],
          logs @ [''Executing action: webhook'', ''Action webhook completed'',
                  ''Executing action: email'', ''Action email completed'',
                  ''Executing action: solana_transfer'', ''Action solana_transfer completed''],
          [Ran 0 action_A, Ran 1 action_B, Ran 2 action_C])" for logs
    by (simp add: executeAction_def action_A_def action_B_def action_C_def respond_ok_def
          WEBHOOK_def HTTP_REQUEST_def EMAIL_def SOLANA_TRANSFER_def nullish_def)
  show ?thesis
    by (simp add: met executeWorkflow_def example_workflow_def run_from_actions_def run
          del: evaluateConditions.simps run_actions.simps)
qed





subsection \<open>Workflow execution\<close>

lemma run_actions_first_refused:
  "run_actions refuse_connection 0 [action_A, action_B, action_C] [] logs []
     = (Some (Error ''connect ECONNREFUSED''),
        [\<lparr>entry_action = ''webhook'', entry_success = False, entry_result = None,
          entry_error = Some ''connect ECONNREFUSED''\<rparr>],
        logs @ [''Executing action: webhook'',
                ''Action webhook failed: connect ECONNREFUSED''],
        [Ran 0 action_A])"
  by (simp add: executeAction_def action_A_def refuse_connection_def WEBHOOK_def nullish_def)

text \<open>
  C3. The workflow has no conditions and the actions [A, B, C]; the request of A is
  refused. B and C are not run and the execution ends as failed with the error recorded,
  as the claim says. But the update that the \<open>catch\<close> block issues carries no \<open>result\<close>:
  the entry for A with \<open>success = false\<close> that the loop pushed on \<open>results\<close> is lost, the
  stored result is the empty object and its \<open>actions\<close> member is undefined.
\<close>

theorem executeWorkflow_failed_result_not_persisted:
  "executeWorkflow rt refuse_connection ''e1'' (example_workflow []) (JObj [])
     = (Inl (Error ''connect ECONNREFUSED''),
        [Ran 0 action_A,
         ExecUpdateStatus ''e1''
           \<lparr>eu_status = ''failed'', eu_result = None,
            eu_error = Some ''connect ECONNREFUSED'',
            eu_logs = [''Workflow started'', ''Executing action: webhook'',
                       ''Action webhook failed: connect ECONNREFUSED'',
                       ''Workflow failed: connect ECONNREFUSED'']\<rparr>,
         UpdateExecutionStats ''w1'' False])
   \<and> map_option (\<lambda>r. result_actions (ex_result r))
        (workflow_executions
           (apply_effects
              (snd (executeWorkflow rt refuse_connection ''e1'' (example_workflow []) (JObj [])))
              example_store) ''e1'')
       = Some None"
proof -
  have run: "executeWorkflow rt refuse_connection ''e1'' (example_workflow []) (JObj [])
     = (Inl (Error ''connect ECONNREFUSED''),
        [Ran 0 action_A,
         ExecUpdateStatus ''e1''
           \<lparr>eu_status = ''failed'', eu_result = None,
            eu_error = Some ''connect ECONNREFUSED'',
            eu_logs = [''Workflow started'', ''Executing action: webhook'',
                       ''Action webhook failed: connect ECONNREFUSED'',
                       ''Workflow failed: connect ECONNREFUSED'']\<rparr>,
         UpdateExecutionStats ''w1'' False])"
    by (simp add: executeWorkflow_def example_workflow_def run_from_actions_def
          run_actions_first_refused catch_block_def del: run_actions.simps)
  show ?thesis
    unfolding run snd_conv
    by (simp add: apply_effects_def example_store_def)
qed

lemma amount_50_not_greater:
  "evaluateConditions rt [amount_greater_than_100] (JObj [(''amount'', JNum 50)])
     = (Inr False, [])"
  by (simp add: amount_greater_than_100_def cond_path_def getNestedValue_def js_le_def
        js_less_def)

lemma refused_attempt:
  "executeWorkflow_store rt (always_up a) (always_refused a) ''e1'' (example_workflow []) (JObj [])
     = (Inl (Error ''connect ECONNREFUSED''),
        [Ran 0 action_A,
         ExecUpdateStatus ''e1''
           \<lparr>eu_status = ''failed'', eu_result = None,
            eu_error = Some ''connect ECONNREFUSED'',
            eu_logs = [''Workflow started'', ''Executing action: webhook'',
                       ''Action webhook failed: connect ECONNREFUSED'',
                       ''Workflow failed: connect ECONNREFUSED'']\<rparr>,
         UpdateExecutionStats ''w1'' False])"
proof -
  have r: "always_refused a = refuse_connection"
    by (simp add: fun_eq_iff always_refused_def refuse_connection_def)
  show ?thesis
    by (simp add: executeWorkflow_store_def example_workflow_def run_from_actions_store_def
          r run_actions_first_refused catch_block_store_def always_up_def
          del: run_actions.simps)
qed


text \<open>
  C8, as the spec states it, fails twice. A skipped execution (condition \<open>amount > 100\<close>,
  trigger data \<open>{amount: 50}\<close>) makes one store update, the one that marks it skipped,
  and the workflow's row keeps its execution count and last status. And an execution
  whose first action is refused on every attempt, under \<open>maxRetries = 3\<close>, is run three
  times and updates the workflow's row three times: the execution count goes from 4 to 7.
\<close>

theorem workflow_stats_counterexample:
  "executeWorkflow example_runtime respond_ok ''e1''
       (example_workflow [amount_greater_than_100]) (JObj [(''amount'', JNum 50)])
     = (Inr (),
        [ExecUpdateStatus ''e1''
           \<lparr>eu_status = ''skipped'', eu_result = Some (ReasonResult ''Conditions not met''),
            eu_error = None,
            eu_logs = [''Workflow started'', ''Conditions not met, skipping'']\<rparr>])
   \<and> workflows
        (apply_effects
           (snd (executeWorkflow example_runtime respond_ok ''e1''
              (example_workflow [amount_greater_than_100]) (JObj [(''amount'', JNum 50)])))
           example_store) ''w1''
       = Some \<lparr>execution_count = 4, last_execution_status = None\<rparr>
   \<and> map stats_updates
        (snd (process_workflow_job example_runtime always_up always_refused 3 ''e1''
           (example_workflow []) (JObj [])))
       = [[(''w1'', False)], [(''w1'', False)], [(''w1'', False)]]
   \<and> workflows
        (apply_effects
           (concat (snd (process_workflow_job example_runtime always_up always_refused 3 ''e1''
              (example_workflow []) (JObj []))))
           example_store) ''w1''
       = Some \<lparr>execution_count = 7, last_execution_status = Some ''failed''\<rparr>"
proof -
  have run: "executeWorkflow example_runtime respond_ok ''e1''
       (example_workflow [amount_greater_than_100]) (JObj [(''amount'', JNum 50)])
     = (Inr (),
        [ExecUpdateStatus ''e1''
           \<lparr>eu_status = ''skipped'', eu_result = Some (ReasonResult ''Conditions not met''),
            eu_error = None,
            eu_logs = [''Workflow started'', ''Conditions not met, skipping'']\<rparr>])"
    by (simp add: executeWorkflow_def example_workflow_def amount_50_not_greater
          del: evaluateConditions.simps)
  have job: "snd (process_workflow_job example_runtime always_up always_refused 3 ''e1''
           (example_workflow []) (JObj []))
     = replicate 3
        [Ran 0 action_A,
         ExecUpdateStatus ''e1''
           \<lparr>eu_status = ''failed'', eu_result = None,
            eu_error = Some ''connect ECONNREFUSED'',
            eu_logs = [''Workflow started'', ''Executing action: webhook'',
                       ''Action webhook failed: connect ECONNREFUSED'',
                       ''Workflow failed: connect ECONNREFUSED'']\<rparr>,
         UpdateExecutionStats ''w1'' False]"
    by (simp add: process_workflow_job_def numeral_2_eq_2 numeral_3_eq_3 refused_attempt)
  show ?thesis
    unfolding run snd_conv job
    by (simp add: apply_effects_def example_store_def numeral_3_eq_3)
qed


lemma status_updates_append:
  "status_updates (xs @ ys) = status_updates xs @ status_updates ys"
  by (induction xs rule: status_updates.induct) simp_all

lemma stats_updates_append:
  "stats_updates (xs @ ys) = stats_updates xs @ stats_updates ys"
  by (induction xs rule: stats_updates.induct) simp_all

lemma run_actions_updates:
  "run_actions http i as rs logs effs = (e, rs', logs', effs') \<Longrightarrow>
     status_updates effs' = status_updates effs \<and> stats_updates effs' = stats_updates effs"
proof (induction as arbitrary: i rs logs effs)
  case Nil
  then show ?case by simp
next
  case (Cons a as)
  show ?case
  proof (cases "executeAction http i a")
    case (Inl err)
    with Cons.prems show ?thesis
      by (auto simp: Let_def status_updates_append stats_updates_append)
  next
    case (Inr r)
    with Cons.prems have
      "run_actions http (i + 1) as
         (rs @ [\<lparr>entry_action = act_type a, entry_success = True,
                  entry_result = Some r, entry_error = None\<rparr>])
         ((logs @ [''Executing action: '' @ act_type a])
            @ [''Action '' @ act_type a @ '' completed''])
         (effs @ [Ran i a]) = (e, rs', logs', effs')"
      by (simp add: Let_def)
    from Cons.IH [OF this] show ?thesis
      by (simp add: status_updates_append stats_updates_append)
  qed
qed


text \<open>With a store that accepts every call, the general version is \<open>executeWorkflow\<close>.\<close>

lemma catch_block_store_up:
  "\<forall>op. db op = None \<Longrightarrow>
     catch_block_store db eid flow e logs effs = catch_block eid flow e logs effs"
  by (simp add: catch_block_store_def catch_block_def)

lemma run_from_actions_store_up:
  "\<forall>op. db op = None \<Longrightarrow>
     run_from_actions_store db http eid flow logs = run_from_actions http eid flow logs"
  by (simp add: run_from_actions_store_def run_from_actions_def catch_block_store_up
        split: sum.splits prod.splits option.splits)

lemma executeWorkflow_store_up:
  "\<forall>op. db op = None \<Longrightarrow>
     executeWorkflow_store rt db http eid flow d = executeWorkflow rt http eid flow d"
  by (simp add: executeWorkflow_store_def executeWorkflow_def catch_block_store_up
        run_from_actions_store_up Let_def
        split: sum.splits option.splits del: evaluateConditions.simps)

lemma run_from_actions_outcome:
  "(\<not> isl (fst (run_from_actions http eid flow logs))
      \<and> status_updates (snd (run_from_actions http eid flow logs)) = [''success'']
      \<and> stats_updates (snd (run_from_actions http eid flow logs)) = [(wf_id flow, True)])
   \<or> (isl (fst (run_from_actions http eid flow logs))
      \<and> status_updates (snd (run_from_actions http eid flow logs)) = [''failed'']
      \<and> stats_updates (snd (run_from_actions http eid flow logs)) = [(wf_id flow, False)])"
proof (cases "wf_actions flow")
  case (Inl e)
  then show ?thesis by (simp add: run_from_actions_def catch_block_def)
next
  case (Inr actions)
  obtain e rs' logs' effs' where
    r: "run_actions http 0 actions [] logs [] = (e, rs', logs', effs')"
    by (cases "run_actions http 0 actions [] logs []") auto
  from run_actions_updates [OF r]
  have "status_updates effs' = []" and "stats_updates effs' = []" by simp_all
  with Inr r show ?thesis
    by (cases e)
       (simp_all add: run_from_actions_def catch_block_def status_updates_append
          stats_updates_append)
qed

lemma executeWorkflow_outcome:
  "(\<not> isl (fst (executeWorkflow rt http eid flow d))
      \<and> status_updates (snd (executeWorkflow rt http eid flow d)) = [''success'']
      \<and> stats_updates (snd (executeWorkflow rt http eid flow d)) = [(wf_id flow, True)])
   \<or> (isl (fst (executeWorkflow rt http eid flow d))
      \<and> status_updates (snd (executeWorkflow rt http eid flow d)) = [''failed'']
      \<and> stats_updates (snd (executeWorkflow rt http eid flow d)) = [(wf_id flow, False)])
   \<or> (\<not> isl (fst (executeWorkflow rt http eid flow d))
      \<and> status_updates (snd (executeWorkflow rt http eid flow d)) = [''skipped'']
      \<and> stats_updates (snd (executeWorkflow rt http eid flow d)) = [])"
proof (cases "wf_conditions flow")
  case None
  with run_from_actions_outcome [of http eid flow "[''Workflow started'']"]
  show ?thesis by (auto simp: executeWorkflow_def)
next
  case (Some conds)
  show ?thesis
  proof (cases "conds = []")
    case True
    with Some run_from_actions_outcome [of http eid flow "[''Workflow started'']"]
    show ?thesis by (auto simp: executeWorkflow_def)
  next
    case False
    show ?thesis
    proof (cases "fst (evaluateConditions rt conds d)")
      case (Inl e)
      with Some False show ?thesis
        by (simp add: executeWorkflow_def catch_block_def)
    next
      case (Inr met)
      with Some False
           run_from_actions_outcome
             [of http eid flow "[''Workflow started'', ''Conditions evaluated: passed'']"]
      show ?thesis
        by (cases met) (auto simp: executeWorkflow_def)
    qed
  qed
qed

lemma run_job_updates:
  assumes up: "\<forall>a op. db a op = None"
  shows "effss = snd (run_job rt db http eid flow d made n) \<Longrightarrow>
     1 \<le> length effss \<and> length effss \<le> n + 1
   \<and> map status_updates (butlast effss) = replicate (length effss - 1) [''failed'']
   \<and> map stats_updates (butlast effss) = replicate (length effss - 1) [(wf_id flow, False)]
   \<and> (status_updates (last effss) = [''success'']
        \<and> stats_updates (last effss) = [(wf_id flow, True)]
      \<or> status_updates (last effss) = [''failed'']
        \<and> stats_updates (last effss) = [(wf_id flow, False)] \<and> length effss = n + 1
      \<or> status_updates (last effss) = [''skipped''] \<and> stats_updates (last effss) = [])"
proof (induction n arbitrary: made effss)
  case 0
  from up have u: "\<forall>op. db made op = None" by simp
  obtain r effs where run: "executeWorkflow rt (http made) eid flow d = (r, effs)"
    by (cases "executeWorkflow rt (http made) eid flow d") auto
  with 0 u have "effss = [effs]" by (simp add: executeWorkflow_store_up)
  with executeWorkflow_outcome [of rt "http made" eid flow d] run
  show ?case by auto
next
  case (Suc n)
  from up have u: "\<forall>op. db made op = None" by simp
  obtain r effs where run: "executeWorkflow rt (http made) eid flow d = (r, effs)"
    by (cases "executeWorkflow rt (http made) eid flow d") auto
  show ?case
  proof (cases r)
    case (Inr v)
    with Suc.prems u run have "effss = [effs]" by (simp add: executeWorkflow_store_up)
    with executeWorkflow_outcome [of rt "http made" eid flow d] run Inr
    show ?thesis by auto
  next
    case (Inl e)
    define rest where "rest = snd (run_job rt db http eid flow d (made + 1) n)"
    from Suc.prems u run Inl have effss: "effss = effs # rest"
      by (simp add: executeWorkflow_store_up rest_def split: prod.splits)
    from Suc.IH [of rest "made + 1"] have ih:
      "1 \<le> length rest \<and> length rest \<le> n + 1
       \<and> map status_updates (butlast rest) = replicate (length rest - 1) [''failed'']
       \<and> map stats_updates (butlast rest) = replicate (length rest - 1) [(wf_id flow, False)]
       \<and> (status_updates (last rest) = [''success'']
            \<and> stats_updates (last rest) = [(wf_id flow, True)]
          \<or> status_updates (last rest) = [''failed'']
            \<and> stats_updates (last rest) = [(wf_id flow, False)] \<and> length rest = n + 1
          \<or> status_updates (last rest) = [''skipped''] \<and> stats_updates (last rest) = [])"
      by (simp add: rest_def)
    then have ne: "rest \<noteq> []" by auto
    from executeWorkflow_outcome [of rt "http made" eid flow d] run Inl
    have first: "status_updates effs = [''failed'']"
                "stats_updates effs = [(wf_id flow, False)]"
      by auto
    from ne obtain k where k: "length rest = Suc k" by (cases rest) auto
    from ih ne first k show ?thesis
      unfolding effss by (simp add: replicate_Suc [symmetric] del: replicate_Suc) 
  qed
qed

text \<open>
  C8, amended. With the store calls succeeding, every attempt of a workflow execution
  (one run of \<open>executeWorkflow\<close>) that ends as success or as failed updates the owning
  workflow's execution count and last status exactly once, with that outcome, and an
  attempt that ends as skipped does not update them. A failed attempt is run again by the
  queue, with the same execution id, until the job has been attempted
  \<open>config.workflow.maxRetries\<close> times: every attempt before the last ended as failed and
  made its one update, so an execution updates the fields once for each of its attempts
  that is not skipped.
\<close>

theorem process_workflow_job_stats:
  "\<forall>a op. db a op = None \<Longrightarrow>
   effss = snd (process_workflow_job rt db http attempts eid flow d) \<Longrightarrow>
     1 \<le> length effss \<and> length effss \<le> max 1 attempts
   \<and> map status_updates (butlast effss) = replicate (length effss - 1) [''failed'']
   \<and> map stats_updates (butlast effss) = replicate (length effss - 1) [(wf_id flow, False)]
   \<and> (status_updates (last effss) = [''success'']
        \<and> stats_updates (last effss) = [(wf_id flow, True)]
      \<or> status_updates (last effss) = [''failed'']
        \<and> stats_updates (last effss) = [(wf_id flow, False)]
        \<and> length effss = max 1 attempts
      \<or> status_updates (last effss) = [''skipped''] \<and> stats_updates (last effss) = [])"
proof -
  assume up: "\<forall>a op. db a op = None"
    and e: "effss = snd (process_workflow_job rt db http attempts eid flow d)"
  have m: "attempts - 1 + 1 = max 1 attempts" by simp
  from e have "effss = snd (run_job rt db http eid flow d 0 (attempts - 1))"
    by (simp add: process_workflow_job_def)
  from run_job_updates [OF up this] show ?thesis
    unfolding m .
qed

theorem process_workflow_job_stats_witness:
  "1 \<le> length (snd (process_workflow_job example_runtime always_up always_refused 3 ''e1''
           (example_workflow []) (JObj [])))
   \<and> length (snd (process_workflow_job example_runtime always_up always_refused 3 ''e1''
           (example_workflow []) (JObj []))) \<le> 3
   \<and> map stats_updates (butlast
         (snd (process_workflow_job example_runtime always_up always_refused 3 ''e1''
           (example_workflow []) (JObj []))))
       = replicate
          (length (snd (process_workflow_job example_runtime always_up always_refused 3 ''e1''
             (example_workflow []) (JObj []))) - 1)
          [(''w1'', False)]"
proof -
  have up: "\<forall>a op. always_up a op = None" by (simp add: always_up_def)
  from process_workflow_job_stats
         [OF up refl, of example_runtime always_refused 3 "''e1''" "example_workflow []"
            "JObj []"]
  show ?thesis by (simp add: example_workflow_def)
qed


text \<open>
  When the store rejects a call, the fields can be written differently: here the
  statistics update of the \<open>try\<close> block is rejected after the success update went
  through, so the \<open>catch\<close> block marks the same execution failed and updates the
  statistics with failed.
\<close>

lemma executeWorkflow_store_stats_rejected:
  "fst (executeWorkflow_store example_runtime stats_rejected respond_ok ''e1''
          (example_workflow []) (JObj [])) = Inl (Error ''deadlock detected'')
   \<and> status_updates (snd (executeWorkflow_store example_runtime stats_rejected respond_ok ''e1''
          (example_workflow []) (JObj []))) = [''success'', ''failed'']
   \<and> stats_updates (snd (executeWorkflow_store example_runtime stats_rejected respond_ok ''e1''
          (example_workflow []) (JObj []))) = [(''w1'', False)]"
  by (simp add: executeWorkflow_store_def example_workflow_def run_from_actions_store_def
        catch_block_store_def stats_rejected_def executeAction_def action_A_def action_B_def
        action_C_def respond_ok_def WEBHOOK_def HTTP_REQUEST_def EMAIL_def SOLANA_TRANSFER_def
        nullish_def)

subsection \<open>Rate limiter\<close>

lemma zadd_entry_fresh:
  "m \<notin> fst ` set es \<Longrightarrow> zadd_entry m sc es = es @ [(m, sc)]"
  by (induction es) auto

lemma filter_keeps_all:
  "\<forall>(m, sc) \<in> set es. hi < sc \<Longrightarrow>
     filter (\<lambda>(m, sc). lo \<le> sc \<longrightarrow> \<not> sc \<le> (hi::int)) es = es"
  by (induction es) auto

lemma filter_drops_all:
  "\<forall>(m, sc) \<in> set es. lo \<le> sc \<and> sc \<le> hi \<Longrightarrow>
     filter (\<lambda>(m, sc). lo \<le> sc \<longrightarrow> \<not> sc \<le> (hi::int)) es = []"
  by (induction es) auto

lemma check_fresh:
  assumes "s k = None" and "0 < maxR" and "0 < w"
  shows "checkRateLimit None k maxR w now rnd s =
           (\<lparr>allowed = True, remaining = maxR - 1, reset = w\<rparr>,
            s(k \<mapsto> \<lparr>entries = [((now, rnd), now)], expireAt = Some (now + w * 1000)\<rparr>))"
  using assms
  by (simp add: checkRateLimit_def zremrangebyscore_def zcard_def zadd_def expire_def
        purge_def Let_def)

lemma check_admit:
  assumes "s k = Some \<lparr>entries = es, expireAt = Some e\<rparr>" and "now < e"
    and "\<forall>(m, sc) \<in> set es. now - w * 1000 < sc" and "es \<noteq> []"
    and "int (length es) < maxR" and "(now, rnd) \<notin> fst ` set es" and "0 < w"
  shows "checkRateLimit None k maxR w now rnd s =
           (\<lparr>allowed = True, remaining = maxR - int (length es) - 1, reset = w\<rparr>,
            s(k \<mapsto> \<lparr>entries = es @ [((now, rnd), now)],
                      expireAt = Some (now + w * 1000)\<rparr>))"
  using assms
  by (simp add: checkRateLimit_def zremrangebyscore_def zcard_def zadd_def expire_def
        purge_def Let_def filter_keeps_all zadd_entry_fresh)

lemma check_deny:
  assumes "s k = Some \<lparr>entries = es, expireAt = Some e\<rparr>" and "now < e"
    and "\<forall>(m, sc) \<in> set es. now - w * 1000 < sc" and "es \<noteq> []"
    and "maxR \<le> int (length es)"
  shows "checkRateLimit None k maxR w now rnd s =
           (\<lparr>allowed = False, remaining = 0, reset = w\<rparr>, s)"
proof -
  have "s(k \<mapsto> \<lparr>entries = es, expireAt = Some e\<rparr>) = s"
    using assms(1) by (auto simp: fun_eq_iff)
  with assms show ?thesis
    by (simp add: checkRateLimit_def zremrangebyscore_def zcard_def purge_def Let_def
          filter_keeps_all)
qed

lemma check_elapsed:
  assumes "s k = Some \<lparr>entries = es, expireAt = Some e\<rparr>"
    and "\<forall>(m, sc) \<in> set es. 0 \<le> sc \<and> sc \<le> now - w * 1000"
    and "0 < maxR" and "0 < w"
  shows "checkRateLimit None k maxR w now rnd s =
           (\<lparr>allowed = True, remaining = maxR - 1, reset = w\<rparr>,
            s(k \<mapsto> \<lparr>entries = [((now, rnd), now)], expireAt = Some (now + w * 1000)\<rparr>))"
  using assms
  by (simp add: checkRateLimit_def zremrangebyscore_def zcard_def zadd_def expire_def
        purge_def Let_def filter_drops_all)

text \<open>
  C1. With \<open>maxRequests = 5\<close> and \<open>windowSeconds = 60\<close>, a reachable store and a key
  without entries, six calls made one after the other within one window (the sixth less
  than 60 seconds after the first, the member strings of the admitted calls distinct)
  return \<open>allowed = true\<close> for the first five and \<open>allowed = false\<close> for the sixth; a
  further call made when every recorded timestamp is at or before \<open>now - 60000\<close> is
  allowed again.
\<close>

theorem checkRateLimit_window:
  assumes fresh: "s k = None"
    and order: "0 \<le> t1" "t1 \<le> t2" "t2 \<le> t3" "t3 \<le> t4" "t4 \<le> t5" "t5 \<le> t6"
    and window: "t6 < t1 + 60 * 1000"
    and draws: "distinct [(t1, r1), (t2, r2), (t3, r3), (t4, r4), (t5, r5)]"
    and later: "t5 \<le> t7 - 60 * 1000"
  shows "fst (checks k 5 60
            [(t1, r1), (t2, r2), (t3, r3), (t4, r4), (t5, r5), (t6, r6), (t7, r7)] s)
         = [True, True, True, True, True, False, True]"
proof -
  define e1 where "e1 = [((t1, r1), t1)]"
  define e2 where "e2 = e1 @ [((t2, r2), t2)]"
  define e3 where "e3 = e2 @ [((t3, r3), t3)]"
  define e4 where "e4 = e3 @ [((t4, r4), t4)]"
  define e5 where "e5 = e4 @ [((t5, r5), t5)]"
  define st where "st = (\<lambda>es t. s(k \<mapsto> \<lparr>entries = es, expireAt = Some (t + 60 * 1000)\<rparr>))"
  note es = e1_def e2_def e3_def e4_def e5_def
  have c1: "checkRateLimit None k 5 60 t1 r1 s
              = (\<lparr>allowed = True, remaining = 4, reset = 60\<rparr>, st e1 t1)"
    using fresh by (simp add: check_fresh st_def e1_def)
  have c2: "checkRateLimit None k 5 60 t2 r2 (st e1 t1)
              = (\<lparr>allowed = True, remaining = 3, reset = 60\<rparr>, st e2 t2)"
    using order window draws
    by (subst check_admit [where es = e1 and e = "t1 + 60 * 1000"])
       (auto simp: st_def es)
  have c3: "checkRateLimit None k 5 60 t3 r3 (st e2 t2)
              = (\<lparr>allowed = True, remaining = 2, reset = 60\<rparr>, st e3 t3)"
    using order window draws
    by (subst check_admit [where es = e2 and e = "t2 + 60 * 1000"])
       (auto simp: st_def es)
  have c4: "checkRateLimit None k 5 60 t4 r4 (st e3 t3)
              = (\<lparr>allowed = True, remaining = 1, reset = 60\<rparr>, st e4 t4)"
    using order window draws
    by (subst check_admit [where es = e3 and e = "t3 + 60 * 1000"])
       (auto simp: st_def es)
  have c5: "checkRateLimit None k 5 60 t5 r5 (st e4 t4)
              = (\<lparr>allowed = True, remaining = 0, reset = 60\<rparr>, st e5 t5)"
    using order window draws
    by (subst check_admit [where es = e4 and e = "t4 + 60 * 1000"])
       (auto simp: st_def es)
  have c6: "checkRateLimit None k 5 60 t6 r6 (st e5 t5)
              = (\<lparr>allowed = False, remaining = 0, reset = 60\<rparr>, st e5 t5)"
    using order window
    by (subst check_deny [where es = e5 and e = "t5 + 60 * 1000"])
       (auto simp: st_def es)
  have c7: "checkRateLimit None k 5 60 t7 r7 (st e5 t5)
              = (\<lparr>allowed = True, remaining = 4, reset = 60\<rparr>, st [((t7, r7), t7)] t7)"
    using order later
    by (subst check_elapsed [where es = e5 and e = "t5 + 60 * 1000"])
       (auto simp: st_def es)
  show ?thesis
    by (simp add: c1 c2 c3 c4 c5 c6 c7 split: prod.splits)
qed

theorem checkRateLimit_window_witness:
  "fst (checks ''ratelimit:key:1'' 5 60
          [(1000, 1), (2000, 2), (3000, 3), (4000, 4), (5000, 5), (6000, 6), (65000, 7)]
          (\<lambda>k. None))
     = [True, True, True, True, True, False, True]"
  using checkRateLimit_window
          [of "\<lambda>k. None" "''ratelimit:key:1''" 1000 2000 3000 4000 5000 6000 1 2 3 4 5 65000 6 7]
  by simp

text \<open>
  A request whose four commands run with nothing in between is a call of
  \<open>checkRateLimit\<close>.
\<close>

lemma request_alone:
  "interleave k m w [(False, now), (False, now), (False, now), (False, now)]
       (\<lparr>req_now = now, req_rnd = rnd, req_at = AtRemove\<rparr>, b, s)
     = (\<lparr>req_now = now, req_rnd = rnd,
         req_at = Returned (fst (checkRateLimit None k m w now rnd s))\<rparr>,
        b, snd (checkRateLimit None k m w now rnd s))"
  by (simp add: request_step_def checkRateLimit_def Let_def)

text \<open>
  C9. The claim says that with one slot left two concurrent calls never both return
  \<open>allowed = true\<close>. On the code the count is read by one command and the entry is added
  by a later one, with an \<open>await\<close> between them: when both requests read the count (4)
  before either adds its entry, both are allowed and the key ends with six entries under
  a limit of 5.
\<close>

theorem concurrent_checks_both_allowed:
  "zcard ''ratelimit:key:1'' 5000 one_slot_left = 4
   \<and> interleave ''ratelimit:key:1'' 5 60 race_schedule (request_a, request_b, one_slot_left)
     = (request_a\<lparr>req_at := Returned \<lparr>allowed = True, remaining = 0, reset = 60\<rparr>\<rparr>,
        request_b\<lparr>req_at := Returned \<lparr>allowed = True, remaining = 0, reset = 60\<rparr>\<rparr>,
        (\<lambda>k. None)(''ratelimit:key:1'' \<mapsto>
          \<lparr>entries = [((1000, 1), 1000), ((2000, 2), 2000), ((3000, 3), 3000),
                      ((4000, 4), 4000), ((5000, 5), 5000), ((5001, 6), 5001)],
           expireAt = Some 65007\<rparr>))"
  by (simp add: race_schedule_def request_a_def request_b_def one_slot_left_def
        request_step_def zremrangebyscore_def zcard_def zadd_def expire_def purge_def Let_def)

end
